theory Spec2Isabelle
  imports Complex_Main "HOL-Library.AList"
begin

section \<open>Strings\<close>

text \<open>
  A JavaScript string is a sequence of UTF-16 code units. The model uses \<^typ>\<open>string\<close>, whose
  characters are read as the code units U+0000 to U+00FF (Latin-1). All string built-ins below
  are the restriction of the ECMAScript ones to that range.
\<close>

definition toLowerCase_char :: "char \<Rightarrow> char" where
  "toLowerCase_char c =
     (let n = (of_char c :: nat) in
      if (65 \<le> n \<and> n \<le> 90) \<or> (192 \<le> n \<and> n \<le> 222 \<and> n \<noteq> 215)
      then char_of (n + 32) else c)"

definition toLowerCase :: "string \<Rightarrow> string" where
  "toLowerCase s = map toLowerCase_char s"

text \<open>\<open>s.includes(t)\<close>: \<open>t\<close> occurs in \<open>s\<close> as a contiguous substring.\<close>

fun includes_str :: "string \<Rightarrow> string \<Rightarrow> bool" where
  "includes_str [] t = (t = [])"
| "includes_str (c # s) t = (take (length t) (c # s) = t \<or> includes_str s t)"

text \<open>White space and line terminators of ECMAScript below U+0100 (the class \<open>\s\<close>).\<close>

definition is_space :: "char \<Rightarrow> bool" where
  "is_space c = (of_char c \<in> set [9, 10, 11, 12, 13, 32, 160 :: nat])"

definition is_digit :: "char \<Rightarrow> bool" where
  "is_digit c = (let n = (of_char c :: nat) in 48 \<le> n \<and> n \<le> 57)"

text \<open>The class \<open>\w\<close>: \<open>[A-Za-z0-9_]\<close>.\<close>

definition is_word :: "char \<Rightarrow> bool" where
  "is_word c =
     (let n = (of_char c :: nat) in
      (65 \<le> n \<and> n \<le> 90) \<or> (97 \<le> n \<and> n \<le> 122) \<or> (48 \<le> n \<and> n \<le> 57) \<or> n = 95)"

text \<open>The class \<open>[^,\s]\<close>.\<close>

definition not_comma_space :: "char \<Rightarrow> bool" where
  "not_comma_space c = (\<not> (c = CHR '','' \<or> is_space c))"

definition trim :: "string \<Rightarrow> string" where
  "trim s = rev (dropWhile is_space (rev (dropWhile is_space s)))"

text \<open>Decimal rendering of a non-negative integer, as a template literal renders it.\<close>

fun string_of_nat :: "nat \<Rightarrow> string" where
  "string_of_nat n =
     (if n < 10 then [char_of (48 + n)]
      else string_of_nat (n div 10) @ [char_of (48 + n mod 10)])"

declare string_of_nat.simps [simp del]

section \<open>Regular expressions of the pattern matcher\<close>

text \<open>
  Every regular expression of \<open>parseBasicQuery\<close> is a sequence of single-character classes,
  each with a greedy quantifier, some of them wrapped in a capture group. A piece is such a
  class with its quantifier and whether it is captured.
\<close>

datatype quant = Once | Optional | ZeroOrMore | OneOrMore

datatype piece = Piece "char \<Rightarrow> bool" quant bool

type_synonym regex = "piece list"

fun lo_count :: "quant \<Rightarrow> nat" where
  "lo_count Once = 1"
| "lo_count Optional = 0"
| "lo_count ZeroOrMore = 0"
| "lo_count OneOrMore = 1"

fun hi_count :: "quant \<Rightarrow> nat \<Rightarrow> nat" where
  "hi_count Once run = min 1 run"
| "hi_count Optional run = min 1 run"
| "hi_count ZeroOrMore run = run"
| "hi_count OneOrMore run = run"

text \<open>
  Backtracking match of a regex at the start of the input: a greedy piece first takes the
  longest run of its class and gives characters back one at a time while the rest of the
  regex fails. \<open>try_counts\<close> tries the candidate lengths \<open>ks\<close> of the current piece in order.
  The result is the captured substrings and the input left after the match.
\<close>

fun match_from :: "regex \<Rightarrow> string \<Rightarrow> (string list \<times> string) option"
  and try_counts :: "regex \<Rightarrow> bool \<Rightarrow> string \<Rightarrow> nat list \<Rightarrow> (string list \<times> string) option" where
  "match_from [] s = Some ([], s)"
| "match_from (Piece p q cap # ps) s =
     try_counts ps cap s (rev [lo_count q ..< Suc (hi_count q (length (takeWhile p s)))])"
| "try_counts ps cap s [] = None"
| "try_counts ps cap s (k # ks) =
     (case match_from ps (drop k s) of
        None \<Rightarrow> try_counts ps cap s ks
      | Some (caps, rest) \<Rightarrow> Some ((if cap then [take k s] else []) @ caps, rest))"

text \<open>\<open>regex.exec\<close> from \<open>lastIndex\<close>: the leftmost position at which the regex matches.\<close>

fun search :: "regex \<Rightarrow> string \<Rightarrow> (string list \<times> string) option" where
  "search r [] = match_from r []"
| "search r (c # s) =
     (case match_from r (c # s) of Some m \<Rightarrow> Some m | None \<Rightarrow> search r s)"

definition lit :: "char \<Rightarrow> piece" where
  "lit c = Piece (\<lambda>x. x = c) Once False"

definition lits :: "string \<Rightarrow> regex" where
  "lits s = map lit s"

text \<open>The six templates, in the source's order.\<close>

definition patterns :: "(regex \<times> string) list" where
  "patterns =
     [ ([Piece is_word OneOrMore True, Piece is_space ZeroOrMore False] @ lits ''>'' @
        [Piece is_space ZeroOrMore False, Piece is_digit OneOrMore True], ''greater''),
       ([Piece is_word OneOrMore True, Piece is_space ZeroOrMore False] @ lits ''<'' @
        [Piece is_space ZeroOrMore False, Piece is_digit OneOrMore True], ''less''),
       ([Piece is_word OneOrMore True, Piece is_space ZeroOrMore False] @ lits ''>='' @
        [Piece is_space ZeroOrMore False, Piece is_digit OneOrMore True], ''greaterEqual''),
       ([Piece is_word OneOrMore True, Piece is_space ZeroOrMore False] @ lits ''<='' @
        [Piece is_space ZeroOrMore False, Piece is_digit OneOrMore True], ''lessEqual''),
       ([Piece is_word OneOrMore True, Piece is_space ZeroOrMore False] @ lits ''='' @
        [Piece is_space ZeroOrMore False, Piece not_comma_space OneOrMore True], ''equals''),
       ([Piece is_word OneOrMore True, Piece is_space OneOrMore False] @ lits ''contain'' @
        [Piece (\<lambda>x. x = CHR ''s'') Optional False, Piece is_space OneOrMore False,
         Piece not_comma_space OneOrMore True], ''contains'') ]"

section \<open>Data model\<close>

record FilterCondition =
  filter_id :: string
  column :: string
  operator :: string
  filter_value :: string

text \<open>The uploaded table: the header row and the data rows, each a list of cell texts.\<close>

record ExcelData =
  headers :: "string list"
  rows :: "string list list"

section \<open>PatternMatcher: \<open>parseBasicQuery\<close>\<close>

text \<open>
  The column a matched name resolves to: the first header, in table order, that contains the
  name or is contained in it, headers compared in lower case. With no table there is none.
\<close>

definition matchingColumn :: "ExcelData option \<Rightarrow> string \<Rightarrow> string option" where
  "matchingColumn excelData columnName =
     (case excelData of
        None \<Rightarrow> None
      | Some d \<Rightarrow>
          List.find (\<lambda>header. includes_str (toLowerCase header) columnName \<or>
                              includes_str columnName (toLowerCase header)) (headers d))"

text \<open>
  The filter pushed for one match. \<open>now\<close> is the clock: \<open>now i\<close> is what \<open>Date.now()\<close> returns
  when the filter with index \<open>i\<close> is built. A header that is the empty string is falsy in
  \<open>if (matchingColumn)\<close>, so it pushes nothing. A match has the two captures \<open>columnName\<close>
  and \<open>value\<close>, since every template has two groups; the last case is for a regex that is not
  one of the six.
\<close>

definition push_match ::
  "(nat \<Rightarrow> nat) \<Rightarrow> ExcelData option \<Rightarrow> string \<Rightarrow> string list \<Rightarrow>
   FilterCondition list \<Rightarrow> FilterCondition list" where
  "push_match now excelData opr caps filters =
     (case caps of
        columnName # val # _ \<Rightarrow>
          (case matchingColumn excelData columnName of
             None \<Rightarrow> filters
           | Some header \<Rightarrow>
               if header = [] then filters
               else filters @
                 [\<lparr> filter_id = ''basic_filter_'' @ string_of_nat (now (length filters)) @ ''_'' @
                                string_of_nat (length filters),
                    column = header, operator = opr, filter_value = trim val \<rparr>])
      | _ \<Rightarrow> filters)"

text \<open>
  The loop \<open>while ((match = regex.exec(lowerQuery)) !== null)\<close> of one template. The regex
  has the flag \<open>g\<close>: each call searches from where the last match ended, here the input that
  is left. A match that consumed nothing would leave \<open>lastIndex\<close> where it was and the loop
  would not end: the function is partial, \<open>None\<close> is not returning.
\<close>

partial_function (option) exec_loop ::
  "(nat \<Rightarrow> nat) \<Rightarrow> ExcelData option \<Rightarrow> regex \<Rightarrow> string \<Rightarrow> string \<Rightarrow>
   FilterCondition list \<Rightarrow> FilterCondition list option" where
  "exec_loop now excelData r opr s filters =
     (case search r s of
        None \<Rightarrow> Some filters
      | Some (caps, rest) \<Rightarrow>
          exec_loop now excelData r opr rest (push_match now excelData opr caps filters))"

declare exec_loop.simps [code]

text \<open>\<open>patterns.forEach\<close>: the templates run in order over the same lower-cased query.\<close>

fun forEach_pattern ::
  "(nat \<Rightarrow> nat) \<Rightarrow> ExcelData option \<Rightarrow> (regex \<times> string) list \<Rightarrow> string \<Rightarrow>
   FilterCondition list \<Rightarrow> FilterCondition list option" where
  "forEach_pattern now excelData [] lowerQuery filters = Some filters"
| "forEach_pattern now excelData ((r, opr) # ps) lowerQuery filters =
     (case exec_loop now excelData r opr lowerQuery filters of
        None \<Rightarrow> None
      | Some filters' \<Rightarrow> forEach_pattern now excelData ps lowerQuery filters')"

definition parseBasicQuery ::
  "(nat \<Rightarrow> nat) \<Rightarrow> ExcelData option \<Rightarrow> string \<Rightarrow> FilterCondition list option" where
  "parseBasicQuery now excelData query =
     forEach_pattern now excelData patterns (toLowerCase query) []"


text \<open>The least number of characters a match of the regex consumes.\<close>

fun min_len :: "regex \<Rightarrow> nat" where
  "min_len [] = 0"
| "min_len (Piece p q cap # ps) = lo_count q + min_len ps"

section \<open>Values and the host's built-ins\<close>

text \<open>
  A grid cell is typed \<open>any\<close> in the source. The model has the values the component stores in
  a row: text (every cell that \<open>convertToGridData\<close> writes), numbers (the fields the
  aggregation writes), \<open>null\<close>, and \<open>undefined\<close> (what reading a missing key yields).

  Numbers are IEEE doubles in the source. The model leaves the number type \<open>'n\<close> and its
  arithmetic abstract: \<open>+\<close>, \<open>-\<close>, \<open>/\<close>, \<open><\<close> and \<open>\<le>\<close> are the operations of the type classes,
  which have no axioms, and the built-ins whose results depend on the host (\<open>Number\<close> on a
  string, \<open>isNaN\<close>, \<open>Date\<close> parsing, locale-sensitive comparison, number formatting) are the
  fields of a record. Every theorem that quantifies over the host holds for the doubles too.
\<close>

datatype 'n jsval = Undefined | Null | Str string | Num 'n

record 'n host =
  Number_str :: "string \<Rightarrow> 'n"
  isNaN :: "'n \<Rightarrow> bool"
  NaN :: 'n
  num_of_nat :: "nat \<Rightarrow> 'n"
  num_toString :: "'n \<Rightarrow> string"
  Date_str :: "string \<Rightarrow> int option"
  Date_num :: "'n \<Rightarrow> int option"
  localeCompare :: "string \<Rightarrow> string \<Rightarrow> 'n"
  typeError_message :: "string \<Rightarrow> string"

text \<open>
  \<open>Number_str h s\<close> is \<open>Number(s)\<close>; \<open>num_of_nat h k\<close> is the number \<open>k\<close> (a literal, a length);
  \<open>Date_str h s\<close> is the time value of \<open>new Date(s)\<close> in milliseconds, \<open>None\<close> for an invalid
  date; \<open>typeError_message h p\<close> is the message of the \<open>TypeError\<close> the engine raises when
  property \<open>p\<close> of \<open>null\<close> or \<open>undefined\<close> is read, and for \<open>p = [ToPrimitive]\<close> when an object
  cannot be converted to a primitive value.
\<close>

datatype thrown = Error string | TypeError string | NonError

type_synonym 'n GridRow = "(string \<times> 'n jsval) list"

text \<open>
  \<open>row[key]\<close> and \<open>row[key] = v\<close> on an object with the keys in insertion order. A row holds
  its own keys, the headers of the table. For a key that is no header and names a member of
  \<open>Object.prototype\<close> (\<open>constructor\<close>, \<open>toString\<close>, \<open>__proto__\<close> and the like) the source reads the
  inherited member; such keys are outside this model, which reads \<open>undefined\<close> for every key
  the row does not have.
\<close>

definition get :: "'n GridRow \<Rightarrow> string \<Rightarrow> 'n jsval" where
  "get row key = (case map_of row key of None \<Rightarrow> Undefined | Some v \<Rightarrow> v)"

definition put :: "string \<Rightarrow> 'n jsval \<Rightarrow> 'n GridRow \<Rightarrow> 'n GridRow" where
  "put key v row = AList.update key v row"

fun Number_js :: "('n, 'x) host_scheme \<Rightarrow> 'n jsval \<Rightarrow> 'n" where
  "Number_js h Undefined = NaN h"
| "Number_js h Null = num_of_nat h 0"
| "Number_js h (Str s) = Number_str h s"
| "Number_js h (Num n) = n"

fun String_js :: "('n, 'x) host_scheme \<Rightarrow> 'n jsval \<Rightarrow> string" where
  "String_js h Undefined = ''undefined''"
| "String_js h Null = ''null''"
| "String_js h (Str s) = s"
| "String_js h (Num n) = num_toString h n"

text \<open>\<open>cell.toString()\<close>: a method call, which throws on \<open>null\<close> and \<open>undefined\<close>.\<close>

fun toString :: "('n, 'x) host_scheme \<Rightarrow> 'n jsval \<Rightarrow> thrown + string" where
  "toString h Undefined = Inl (TypeError ''toString'')"
| "toString h Null = Inl (TypeError ''toString'')"
| "toString h v = Inr (String_js h v)"

text \<open>The time value of \<open>new Date(v)\<close>.\<close>

fun Date_js :: "('n, 'x) host_scheme \<Rightarrow> 'n jsval \<Rightarrow> int option" where
  "Date_js h Undefined = None"
| "Date_js h Null = Some 0"
| "Date_js h (Str s) = Date_str h s"
| "Date_js h (Num n) = Date_num h n"

text \<open>Truthiness: \<open>undefined\<close>, \<open>null\<close>, the empty string, zero and \<open>NaN\<close> are falsy.\<close>

definition truthy_num :: "('n::ord, 'x) host_scheme \<Rightarrow> 'n \<Rightarrow> bool" where
  "truthy_num h n = (if isNaN h n then False else n < num_of_nat h 0 \<or> num_of_nat h 0 < n)"

fun truthy :: "('n::ord, 'x) host_scheme \<Rightarrow> 'n jsval \<Rightarrow> bool" where
  "truthy h Undefined = False"
| "truthy h Null = False"
| "truthy h (Str s) = (s \<noteq> [])"
| "truthy h (Num n) = truthy_num h n"

section \<open>TabularStore: \<open>convertToGridData\<close>\<close>

text \<open>\<open>row[index] || ""\<close>: a cell that is missing from a short row, or empty, reads as \<open>""\<close>.\<close>

definition cell_or_empty :: "string list \<Rightarrow> nat \<Rightarrow> string" where
  "cell_or_empty row index = (if index < length row then row ! index else [])"

definition convertToGridData :: "ExcelData \<Rightarrow> 'n GridRow list" where
  "convertToGridData data =
     map (\<lambda>row. foldl (\<lambda>rowObj (header, index). put header (Str (cell_or_empty row index)) rowObj)
                  [] (zip (headers data) [0 ..< length (headers data)]))
         (rows data)"

section \<open>FilterEngine: \<open>applyFilters\<close>\<close>

text \<open>
  The four ordered operators share one shape in the source, copied four times with a
  different comparison: numbers if both sides are numbers, else dates if both sides are
  dates, else no match. \<open>num_cmp\<close> and \<open>date_cmp\<close> are the comparison of the case.
\<close>

definition ordered_case ::
  "('n, 'x) host_scheme \<Rightarrow> ('n \<Rightarrow> 'n \<Rightarrow> bool) \<Rightarrow> (int \<Rightarrow> int \<Rightarrow> bool) \<Rightarrow> 'n jsval \<Rightarrow> string \<Rightarrow> bool" where
  "ordered_case h num_cmp date_cmp cellValue filterValue =
     (let cellNum = Number_js h cellValue; filterNum = Number_str h filterValue in
      if \<not> isNaN h cellNum \<and> \<not> isNaN h filterNum then num_cmp cellNum filterNum
      else
        (case (Date_js h cellValue, Date_str h filterValue) of
           (Some cellDate, Some filterDate) \<Rightarrow> date_cmp cellDate filterDate
         | _ \<Rightarrow> False))"

text \<open>The predicate of one filter on one row: the body of \<open>result.filter((row) => ...)\<close>.\<close>

definition matches :: "('n::ord, 'x) host_scheme \<Rightarrow> FilterCondition \<Rightarrow> 'n GridRow \<Rightarrow> bool" where
  "matches h f row =
     (let cellValue = get row (column f); filterValue = filter_value f in
      case cellValue of
        Undefined \<Rightarrow> False
      | Null \<Rightarrow> False
      | _ \<Rightarrow>
        if operator f = ''equals'' then
          toLowerCase (String_js h cellValue) = toLowerCase filterValue
        else if operator f = ''contains'' then
          includes_str (toLowerCase (String_js h cellValue)) (toLowerCase filterValue)
        else if operator f = ''greater'' then
          ordered_case h (\<lambda>a b. a > b) (\<lambda>a b. a > b) cellValue filterValue
        else if operator f = ''less'' then
          ordered_case h (\<lambda>a b. a < b) (\<lambda>a b. a < b) cellValue filterValue
        else if operator f = ''greaterEqual'' then
          ordered_case h (\<lambda>a b. a \<ge> b) (\<lambda>a b. a \<ge> b) cellValue filterValue
        else if operator f = ''lessEqual'' then
          ordered_case h (\<lambda>a b. a \<le> b) (\<lambda>a b. a \<le> b) cellValue filterValue
        else True)"

text \<open>
  The text search of \<open>applyFilters\<close>, which runs only when no filter list is passed:
  \<open>Object.values(row).some((cell) => cell.toString().toLowerCase().includes(needle))\<close>.
\<close>

fun some_cell :: "('n, 'x) host_scheme \<Rightarrow> string \<Rightarrow> 'n jsval list \<Rightarrow> thrown + bool" where
  "some_cell h needle [] = Inr False"
| "some_cell h needle (cell # cells) =
     (case toString h cell of
        Inl e \<Rightarrow> Inl e
      | Inr s \<Rightarrow> if includes_str (toLowerCase s) needle then Inr True
                 else some_cell h needle cells)"

fun text_search :: "('n, 'x) host_scheme \<Rightarrow> string \<Rightarrow> 'n GridRow list \<Rightarrow> thrown + 'n GridRow list" where
  "text_search h needle [] = Inr []"
| "text_search h needle (row # data) =
     (case some_cell h needle (map snd row) of
        Inl e \<Rightarrow> Inl e
      | Inr keep \<Rightarrow>
          (case text_search h needle data of
             Inl e \<Rightarrow> Inl e
           | Inr result \<Rightarrow> Inr (if keep then row # result else result)))"

text \<open>
  \<open>applyFilters(data, customFilters?)\<close>. \<open>stateFilters\<close> and \<open>inputValue\<close> are the component's
  state \<open>filters\<close> and \<open>inputManager.value\<close>, read when \<open>customFilters\<close> is not passed. Each
  filter of the list narrows the result of the one before it.
\<close>

definition applyFilters ::
  "('n::ord, 'x) host_scheme \<Rightarrow> FilterCondition list \<Rightarrow> string \<Rightarrow> 'n GridRow list \<Rightarrow>
   FilterCondition list option \<Rightarrow> thrown + 'n GridRow list" where
  "applyFilters h stateFilters inputValue data customFilters =
     (let filtersToApply = (case customFilters of Some fs \<Rightarrow> fs | None \<Rightarrow> stateFilters);
          searched =
            (case customFilters of
               Some fs \<Rightarrow> Inr data
             | None \<Rightarrow>
                 if trim inputValue \<noteq> [] then text_search h (toLowerCase (trim inputValue)) data
                 else Inr data)
      in case searched of
           Inl e \<Rightarrow> Inl e
         | Inr result \<Rightarrow> Inr (foldl (\<lambda>result f. filter (matches h f) result) result filtersToApply))"


section \<open>Aggregator: \<open>aggregateDataForChart\<close>\<close>

text \<open>
  An entry of the \<open>Map\<close> that groups the rows. \<open>entry.count\<close> is a number that only ever
  grows by one from zero, so the model counts in \<^typ>\<open>nat\<close> and converts where the count is
  stored or divided by.
\<close>

record 'n entry =
  sum :: 'n
  count :: nat
  values_of :: "'n jsval list"

text \<open>The entry a new key starts with: \<open>{ sum: 0, count: 0, values: [] }\<close>.\<close>

definition init_entry :: "('n, 'x) host_scheme \<Rightarrow> 'n entry" where
  "init_entry h = \<lparr> sum = num_of_nat h 0, count = 0, values_of = [] \<rparr>"

text \<open>\<open>String(row[xAxis] || "")\<close>\<close>

definition xValue_of :: "('n::ord, 'x) host_scheme \<Rightarrow> string \<Rightarrow> 'n GridRow \<Rightarrow> string" where
  "xValue_of h xAxis row =
     (let v = get row xAxis in if truthy h v then String_js h v else String_js h (Str []))"

text \<open>What one row adds to the entry of its group.\<close>

definition add_value :: "('n::plus, 'x) host_scheme \<Rightarrow> 'n jsval \<Rightarrow> 'n entry \<Rightarrow> 'n entry" where
  "add_value h yValue e =
     (let numValue = Number_js h yValue;
          e' = (if \<not> isNaN h numValue
                then e\<lparr> sum := sum e + numValue, count := count e + 1 \<rparr>
                else e)
      in e'\<lparr> values_of := values_of e' @ [yValue] \<rparr>)"

text \<open>
  The body of \<open>data.forEach((row) => ...)\<close>. The \<open>Map\<close> keeps its keys in the order of first
  insertion; it is an association list.
\<close>

definition add_row ::
  "('n::{ord,plus}, 'x) host_scheme \<Rightarrow> string \<Rightarrow> string \<Rightarrow>
   (string \<times> 'n entry) list \<Rightarrow> 'n GridRow \<Rightarrow> (string \<times> 'n entry) list" where
  "add_row h xAxis yAxis aggregated row =
     (let xValue = xValue_of h xAxis row;
          yValue = get row yAxis;
          aggregated' =
            (case map_of aggregated xValue of
               None \<Rightarrow> AList.update xValue (init_entry h) aggregated
             | Some _ \<Rightarrow> aggregated)
      in AList.map_entry xValue (add_value h yValue) aggregated')"

text \<open>The chart row built from one group: the body of \<open>.map(([xValue, entry]) => ...)\<close>.\<close>

definition result_row ::
  "('n::inverse, 'x) host_scheme \<Rightarrow> string \<Rightarrow> string \<Rightarrow> string \<times> 'n entry \<Rightarrow> 'n GridRow" where
  "result_row h xAxis yAxis = (\<lambda>(xValue, e).
     (let result = put xAxis (Str xValue) [] in
      if count e > 0 then
        put (yAxis @ ''_avg'') (Num (sum e / num_of_nat h (count e)))
          (put (yAxis @ ''_count'') (Num (num_of_nat h (count e)))
            (put yAxis (Num (sum e)) result))
      else put yAxis (Num (num_of_nat h (length (values_of e)))) result))"

text \<open>
  The comparator passed to \<open>sort\<close>: the difference of the two keys when both are numbers,
  else \<open>localeCompare\<close> of their texts.
\<close>

definition compare_rows ::
  "('n::minus, 'x) host_scheme \<Rightarrow> string \<Rightarrow> 'n GridRow \<Rightarrow> 'n GridRow \<Rightarrow> 'n" where
  "compare_rows h xAxis a b =
     (let aVal = get a xAxis; bVal = get b xAxis;
          aNum = Number_js h aVal; bNum = Number_js h bVal
      in if \<not> isNaN h aNum \<and> \<not> isNaN h bNum then aNum - bNum
         else localeCompare h (String_js h aVal) (String_js h bVal))"

text \<open>
  \<open>Array.prototype.sort\<close> is stable, and for a comparator that is a consistent ordering its
  result is the one stable sorted arrangement, whatever the algorithm. The model is the
  stable insertion sort: an element moves behind exactly those it compares greater than
  (\<open>cmp a b > 0\<close>). For a comparator that is not consistent ECMAScript leaves the order to
  the implementation.
\<close>

fun insert_by :: "('a \<Rightarrow> 'a \<Rightarrow> bool) \<Rightarrow> 'a \<Rightarrow> 'a list \<Rightarrow> 'a list" where
  "insert_by gt x [] = [x]"
| "insert_by gt x (y # ys) = (if gt x y then y # insert_by gt x ys else x # y # ys)"

definition sort_by :: "('a \<Rightarrow> 'a \<Rightarrow> bool) \<Rightarrow> 'a list \<Rightarrow> 'a list" where
  "sort_by gt xs = foldr (insert_by gt) xs []"

definition aggregateDataForChart ::
  "('n::{ord,plus,minus,inverse}, 'x) host_scheme \<Rightarrow> 'n GridRow list \<Rightarrow> string \<Rightarrow> string \<Rightarrow>
   'n GridRow list" where
  "aggregateDataForChart h data xAxis yAxis =
     (if data = [] \<or> xAxis = [] \<or> yAxis = [] then data
      else
        sort_by (\<lambda>a b. compare_rows h xAxis a b > num_of_nat h 0)
          (map (result_row h xAxis yAxis) (foldl (add_row h xAxis yAxis) [] data)))"


section \<open>QueryInterpreter: \<open>analyzeSearchQuery\<close>\<close>

text \<open>What \<open>response.json()\<close> can resolve to: any JSON value.\<close>

datatype 'n json =
  JNull | JBool bool | JNum 'n | JStr string | JArr "'n json list" | JObj "(string \<times> 'n json) list"

text \<open>
  What the analysis service does, seen from the caller: \<open>fetch\<close> rejects with a thrown value,
  or resolves to a response with \<open>ok\<close>, \<open>status\<close>, and what \<open>text()\<close> and \<open>json()\<close> settle to.
  A call that never settles is outside the model: the source sets no timeout.
\<close>

datatype 'n service =
  Rejects thrown
| Responds bool nat "thrown + string" "thrown + 'n json"

record 'n AIAnalysisResult =
  query :: string
  interpretation_field :: "'n json"
  filters :: "'n json list"
  success :: bool
  error :: "string option"

text \<open>\<open>error instanceof Error ? error.message : fallback\<close>\<close>

fun message_or :: "('n, 'x) host_scheme \<Rightarrow> thrown \<Rightarrow> string \<Rightarrow> string" where
  "message_or h (Error m) d = m"
| "message_or h (TypeError p) d = typeError_message h p"
| "message_or h NonError d = d"

text \<open>
  Reading property \<open>p\<close> of a JSON value: \<open>None\<close> is \<open>undefined\<close>. Reading from \<open>null\<close> throws.
  None of the names the source reads (\<open>success\<close>, \<open>data\<close>, \<open>error\<close>, \<open>interpretation\<close>,
  \<open>filters\<close>, \<open>column\<close>, \<open>operator\<close>, \<open>value\<close>) is a property of a string, number, boolean or
  array, so only objects answer.
\<close>

fun read_prop :: "'n json \<Rightarrow> string \<Rightarrow> thrown + 'n json option" where
  "read_prop JNull p = Inl (TypeError p)"
| "read_prop (JObj kvs) p = Inr (map_of kvs p)"
| "read_prop v p = Inr None"

fun truthy_json :: "('n::ord, 'x) host_scheme \<Rightarrow> 'n json option \<Rightarrow> bool" where
  "truthy_json h None = False"
| "truthy_json h (Some JNull) = False"
| "truthy_json h (Some (JBool b)) = b"
| "truthy_json h (Some (JNum n)) = truthy_num h n"
| "truthy_json h (Some (JStr s)) = (s \<noteq> [])"
| "truthy_json h (Some (JArr xs)) = True"
| "truthy_json h (Some (JObj kvs)) = True"

fun join_comma :: "string list \<Rightarrow> string" where
  "join_comma [] = []"
| "join_comma [s] = s"
| "join_comma (s # t # ss) = s @ '','' @ join_comma (t # ss)"

text \<open>The results of a list of steps, up to the first that throws.\<close>

fun collect :: "('e + 'a) list \<Rightarrow> 'e + 'a list" where
  "collect [] = Inr []"
| "collect (x # xs) =
     (case x of
        Inl e \<Rightarrow> Inl e
      | Inr a \<Rightarrow> (case collect xs of Inl e \<Rightarrow> Inl e | Inr as \<Rightarrow> Inr (a # as)))"

text \<open>
  \<open>String(v)\<close> of a JSON value, as \<open>new Error(v)\<close> makes its message. An array joins the texts
  of its elements, \<open>null\<close> elements as empty. An object is \<open>[object Object]\<close> by the inherited
  \<open>toString\<close>; an object with a key \<open>toString\<close> of its own hides that method behind a value that
  cannot be called, and the conversion throws a \<open>TypeError\<close>.
\<close>

fun String_json :: "('n, 'x) host_scheme \<Rightarrow> 'n json \<Rightarrow> thrown + string" where
  "String_json h JNull = Inr ''null''"
| "String_json h (JBool b) = Inr (if b then ''true'' else ''false'')"
| "String_json h (JNum n) = Inr (num_toString h n)"
| "String_json h (JStr s) = Inr s"
| "String_json h (JArr xs) =
     (case collect (map (\<lambda>x. case x of JNull \<Rightarrow> Inr [] | _ \<Rightarrow> String_json h x) xs) of
        Inl e \<Rightarrow> Inl e
      | Inr texts \<Rightarrow> Inr (join_comma texts))"
| "String_json h (JObj kvs) =
     (case map_of kvs ''toString'' of
        None \<Rightarrow> Inr ''[object Object]''
      | Some v \<Rightarrow> Inl (TypeError ''[ToPrimitive]''))"

text \<open>\<open>typeof v === "object"\<close> for a truthy value.\<close>

fun is_object :: "'n json \<Rightarrow> bool" where
  "is_object (JArr xs) = True"
| "is_object (JObj kvs) = True"
| "is_object v = False"

text \<open>
  The callback of \<open>analysisResult.filters.map\<close> over the elements from \<open>index\<close> on. A failure
  carries the index it happened at: that many clock readings were taken before it.
\<close>

fun filtersWithIds ::
  "('n::ord, 'x) host_scheme \<Rightarrow> (nat \<Rightarrow> nat) \<Rightarrow> nat \<Rightarrow> 'n json list \<Rightarrow> (thrown \<times> nat) + 'n json list" where
  "filtersWithIds h now index [] = Inr []"
| "filtersWithIds h now index (el # rest) =
     (case read_prop el ''column'' of
        Inl e \<Rightarrow> Inl (e, index)
      | Inr col \<Rightarrow>
          (case (read_prop el ''operator'', read_prop el ''value'') of
             (Inr opr, Inr val) \<Rightarrow>
               if \<not> truthy_json h col \<or> \<not> truthy_json h opr \<or> val = None
               then Inl (Error (''Invalid filter structure at index '' @ string_of_nat index), index)
               else
                 (case filtersWithIds h now (Suc index) rest of
                    Inl e \<Rightarrow> Inl e
                  | Inr done \<Rightarrow>
                      Inr (JObj (AList.update ''id''
                                  (JStr (''ai_filter_'' @ string_of_nat (now index) @ ''_'' @
                                         string_of_nat index))
                                  (case el of JObj kvs \<Rightarrow> kvs | _ \<Rightarrow> [])) # done))
           | (Inl e, _) \<Rightarrow> Inl (e, index)
           | (_, Inl e) \<Rightarrow> Inl (e, index)))"

text \<open>
  The body of the \<open>try\<close> block. \<open>Inl (e, k)\<close>: \<open>e\<close> was thrown after \<open>k\<close> clock readings.
\<close>

definition try_analysis ::
  "('n::ord, 'x) host_scheme \<Rightarrow> (nat \<Rightarrow> nat) \<Rightarrow> 'n service \<Rightarrow> string \<Rightarrow>
   (thrown \<times> nat) + 'n AIAnalysisResult" where
  "try_analysis h now svc q =
     (case svc of
        Rejects fetchError \<Rightarrow>
          Inl (Error (''Network error: '' @ message_or h fetchError ''Unknown network error''), 0)
      | Responds ok status text_result json_result \<Rightarrow>
          if \<not> ok then
            (let errorText = (case text_result of Inl e \<Rightarrow> ''Unable to read error response''
                                                | Inr t \<Rightarrow> t)
             in Inl (Error (''API Error: '' @ string_of_nat status @ '' - '' @
                            (if errorText \<noteq> [] then errorText else ''Server error'')), 0))
          else
            (case json_result of
               Inl e \<Rightarrow> Inl (e, 0)
             | Inr result \<Rightarrow>
                 (case read_prop result ''success'' of
                    Inl e \<Rightarrow> Inl (e, 0)
                  | Inr succ \<Rightarrow>
                      (case read_prop result ''data'' of
                         Inl e \<Rightarrow> Inl (e, 0)
                       | Inr dat \<Rightarrow>
                           (case (truthy_json h succ \<and> truthy_json h dat, dat) of
                              (True, Some analysisResult) \<Rightarrow>
                                if \<not> is_object analysisResult
                                then Inl (Error ''Analysis response is not a valid object'', 0)
                                else
                                  (let interp =
                                         (case read_prop analysisResult ''interpretation'' of
                                            Inr (Some i) \<Rightarrow>
                                              if truthy_json h (Some i) then i
                                              else JStr ''AI analysis completed''
                                          | _ \<Rightarrow> JStr ''AI analysis completed'');
                                       fs =
                                         (case read_prop analysisResult ''filters'' of
                                            Inr (Some (JArr xs)) \<Rightarrow> xs
                                          | _ \<Rightarrow> [])
                                   in case filtersWithIds h now 0 fs of
                                        Inl e \<Rightarrow> Inl e
                                      | Inr withIds \<Rightarrow>
                                          Inr \<lparr> query = q, interpretation_field = interp,
                                                filters = withIds, success = True,
                                                error = None \<rparr>)
                            | _ \<Rightarrow>
                                (case read_prop result ''error'' of
                                   Inl e \<Rightarrow> Inl (e, 0)
                                 | Inr err \<Rightarrow>
                                     (case (truthy_json h err, err) of
                                        (True, Some v) \<Rightarrow>
                                          (case String_json h v of
                                             Inl e \<Rightarrow> Inl (e, 0)
                                           | Inr message \<Rightarrow> Inl (Error message, 0))
                                      | _ \<Rightarrow> Inl (Error ''Analysis failed'', 0))))))))"

text \<open>A filter of the pattern matcher as the object it is in the result.\<close>

definition filter_object :: "FilterCondition \<Rightarrow> 'n json" where
  "filter_object f =
     JObj [(''id'', JStr (filter_id f)), (''column'', JStr (column f)),
           (''operator'', JStr (operator f)), (''value'', JStr (filter_value f))]"

text \<open>
  \<open>analyzeSearchQuery\<close>. The outer option is \<open>None\<close> when the call does not return (the loop of
  the pattern matcher); \<open>Inl\<close> is an exception that leaves the function, which being \<open>async\<close>
  rejects its promise. The request (the query, the headers and the first two rows as sample
  data) is built without a step that can throw and does not enter the result; what the
  service does with it is the argument \<open>svc\<close>.
\<close>

definition analyzeSearchQuery ::
  "('n::ord, 'x) host_scheme \<Rightarrow> (nat \<Rightarrow> nat) \<Rightarrow> ExcelData option \<Rightarrow> 'n service \<Rightarrow> string \<Rightarrow>
   (thrown + 'n AIAnalysisResult) option" where
  "analyzeSearchQuery h now excelData svc q =
     (case excelData of
        None \<Rightarrow> Some (Inl (Error ''No data available for analysis''))
      | Some d \<Rightarrow>
          (case try_analysis h now svc q of
             Inr r \<Rightarrow> Some (Inr r)
           | Inl (err, k) \<Rightarrow>
               (case parseBasicQuery (\<lambda>i. now (k + i)) excelData q of
                  None \<Rightarrow> None
                | Some basicFilters \<Rightarrow>
                    if length basicFilters > 0 then
                      Some (Inr \<lparr> query = q,
                        interpretation_field = JStr (''Using basic pattern matching: Found '' @
                          string_of_nat (length basicFilters) @
                          '' filter(s). AI service unavailable.''),
                        filters = map filter_object basicFilters, success = True,
                        error = None \<rparr>)
                    else
                      Some (Inr \<lparr> query = q,
                        interpretation_field = JStr (''AI service unavailable. Try basic patterns like '' @
                          [CHR 0x27] @ ''column > value'' @ [CHR 0x27] @ '', '' @
                          [CHR 0x27] @ ''column contains text'' @ [CHR 0x27] @ '', or '' @
                          [CHR 0x27] @ ''column = value'' @ [CHR 0x27] @ ''.''),
                        filters = [], success = False,
                        error = Some (message_or h err ''Unknown error'') \<rparr>))))"


section \<open>The comparisons the specification names\<close>

text \<open>
  The comparison an ordered operator stands for in the specification's words: \<open>greater\<close> is
  \<open>c > v\<close>, \<open>less\<close> is \<open>c < v\<close>, \<open>greaterEqual\<close> is \<open>c \<ge> v\<close>, \<open>lessEqual\<close> is \<open>c \<le> v\<close>.
\<close>

definition ordered_operators :: "string list" where
  "ordered_operators = [''greater'', ''less'', ''greaterEqual'', ''lessEqual'']"

definition recognized_operators :: "string list" where
  "recognized_operators = [''equals'', ''contains''] @ ordered_operators"

definition spec_compare :: "string \<Rightarrow> 'a::ord \<Rightarrow> 'a \<Rightarrow> bool" where
  "spec_compare opr c v =
     (if opr = ''greater'' then c > v
      else if opr = ''less'' then c < v
      else if opr = ''greaterEqual'' then c \<ge> v
      else c \<le> v)"

section \<open>The well-formed result of the specification\<close>

text \<open>
  The specification's data model: a filter condition has a text \<open>id\<close>, a text \<open>column\<close>, an
  \<open>operator\<close> that is one of the six, and a text \<open>value\<close>; an interpretation result has a text
  \<open>interpretation\<close> and a list of filter conditions (its \<open>query\<close> and \<open>success\<close> are a text and a
  boolean by their types here).
\<close>

fun is_text :: "'n json option \<Rightarrow> bool" where
  "is_text (Some (JStr s)) = True"
| "is_text v = False"

fun is_operator :: "'n json option \<Rightarrow> bool" where
  "is_operator (Some (JStr s)) = (s \<in> set recognized_operators)"
| "is_operator v = False"

fun well_formed_filter :: "'n json \<Rightarrow> bool" where
  "well_formed_filter (JObj kvs) =
     (is_text (map_of kvs ''id'') \<and> is_text (map_of kvs ''column'') \<and>
      is_operator (map_of kvs ''operator'') \<and> is_text (map_of kvs ''value''))"
| "well_formed_filter v = False"

definition well_formed :: "'n AIAnalysisResult \<Rightarrow> bool" where
  "well_formed r =
     (is_text (Some (interpretation_field r)) \<and> list_all well_formed_filter (filters r))"

text \<open>
  What the validation of the source lets through: an object with a text \<open>id\<close>, a truthy
  \<open>column\<close>, a truthy \<open>operator\<close> and a \<open>value\<close> that is not \<open>undefined\<close>.
\<close>

fun accepted_filter :: "('n::ord, 'x) host_scheme \<Rightarrow> 'n json \<Rightarrow> bool" where
  "accepted_filter h (JObj kvs) =
     (is_text (map_of kvs ''id'') \<and> truthy_json h (map_of kvs ''column'') \<and>
      truthy_json h (map_of kvs ''operator'') \<and> (case map_of kvs ''value'' of None \<Rightarrow> False | Some v \<Rightarrow> True))"
| "accepted_filter h v = False"

text \<open>A filter of the pattern matcher names a column and has one of the six operators.\<close>

definition valid_condition :: "FilterCondition \<Rightarrow> bool" where
  "valid_condition f = (column f \<noteq> [] \<and> operator f \<in> set recognized_operators)"

section \<open>What the aggregation computes, group by group\<close>

text \<open>The rows of the group with key \<open>k\<close>, in their order in the input.\<close>

definition group_of :: "('n::ord, 'x) host_scheme \<Rightarrow> string \<Rightarrow> string \<Rightarrow> 'n GridRow list \<Rightarrow> 'n GridRow list" where
  "group_of h xAxis k data = filter (\<lambda>row. xValue_of h xAxis row = k) data"

text \<open>The numbers among the \<open>yAxis\<close> cells of a group: the cells whose coercion is not \<open>NaN\<close>.\<close>

definition numeric_cells :: "('n, 'x) host_scheme \<Rightarrow> string \<Rightarrow> 'n GridRow list \<Rightarrow> 'n list" where
  "numeric_cells h yAxis g = filter (\<lambda>n. \<not> isNaN h n) (map (\<lambda>row. Number_js h (get row yAxis)) g)"

text \<open>
  The chart row of a group, stated from its rows: with at least one numeric cell, the sum of
  the numeric cells (added in row order), their number, and the sum divided by their
  number; with none, the number of rows of the group.
\<close>

definition chart_row ::
  "('n::{plus,inverse}, 'x) host_scheme \<Rightarrow> string \<Rightarrow> string \<Rightarrow> string \<Rightarrow> 'n GridRow list \<Rightarrow> 'n GridRow" where
  "chart_row h xAxis yAxis k g =
     (let nums = numeric_cells h yAxis g;
          total = foldl (+) (num_of_nat h 0) nums
      in if nums \<noteq> [] then
           put (yAxis @ ''_avg'') (Num (total / num_of_nat h (length nums)))
             (put (yAxis @ ''_count'') (Num (num_of_nat h (length nums)))
               (put yAxis (Num total) (put xAxis (Str k) [])))
         else put yAxis (Num (num_of_nat h (length g))) (put xAxis (Str k) []))"

text \<open>\<open>key_gt h xAxis a b\<close>: the comparator says that \<open>a\<close> sorts after \<open>b\<close>.\<close>

definition key_gt :: "('n::{ord,minus}, 'x) host_scheme \<Rightarrow> string \<Rightarrow> 'n GridRow \<Rightarrow> 'n GridRow \<Rightarrow> bool" where
  "key_gt h xAxis a b = (compare_rows h xAxis a b > num_of_nat h 0)"

text \<open>
  A comparator orders a list of rows consistently when, on these rows, it never puts each
  of two rows after the other, and "does not sort after" is transitive.
\<close>

definition orders_consistently :: "('a \<Rightarrow> 'a \<Rightarrow> bool) \<Rightarrow> 'a list \<Rightarrow> bool" where
  "orders_consistently gt xs =
     list_all (\<lambda>a. list_all (\<lambda>b.
        (if gt a b then \<not> gt b a else True) \<and>
        list_all (\<lambda>c. if \<not> gt a b \<and> \<not> gt b c then \<not> gt a c else True) xs) xs) xs"

text \<open>
  The order the specification claims for the output: two keys that are both numbers in
  numeric order, any other pair in the order of \<open>localeCompare\<close>.
\<close>

definition claimed_order :: "('n::ord, 'x) host_scheme \<Rightarrow> string \<Rightarrow> 'n GridRow \<Rightarrow> 'n GridRow \<Rightarrow> bool" where
  "claimed_order h xAxis a b =
     (let aVal = get a xAxis; bVal = get b xAxis;
          aNum = Number_js h aVal; bNum = Number_js h bVal
      in if \<not> isNaN h aNum \<and> \<not> isNaN h bNum then \<not> bNum < aNum
         else \<not> localeCompare h (String_js h aVal) (String_js h bVal) > num_of_nat h 0)"

text \<open>
  A relation is a total preorder on a list of rows: any two of the rows are related one way
  or the other, and the relation is transitive on them.
\<close>

definition total_preorder_on :: "('a \<Rightarrow> 'a \<Rightarrow> bool) \<Rightarrow> 'a list \<Rightarrow> bool" where
  "total_preorder_on le xs =
     list_all (\<lambda>a. list_all (\<lambda>b.
        (le a b \<or> le b a) \<and>
        list_all (\<lambda>c. if le a b \<and> le b c then le a c else True) xs) xs) xs"

section \<open>A sample host\<close>

text \<open>
  The examples below run on a host that agrees with a JavaScript engine on the inputs they
  use, and is simpler elsewhere:
  \<^item> numbers are \<open>NaN\<close> or an exact rational (doubles are exact on the integers and halves the
    examples compute; there are no infinities, and dividing by zero gives \<open>NaN\<close>);
  \<^item> \<open>Number\<close> of a string reads white space as 0 and an optionally signed run of decimal
    digits as its value, and anything else as \<open>NaN\<close> (an engine also reads fractions,
    exponents, other radixes and \<open>Infinity\<close>);
  \<^item> \<open>Date\<close> of a string reads a calendar date \<open>YYYY-MM-DD\<close> as midnight UTC of that day and
    anything else as invalid (an engine reads more formats);
  \<^item> \<open>localeCompare\<close> compares code units, which is the collation order on texts of digits
    and lower-case ASCII letters;
  \<^item> an integer prints in decimal.
\<close>

datatype num = NotANumber | Finite rat

instantiation num :: "{plus, minus, inverse, ord}"
begin

definition plus_num :: "num \<Rightarrow> num \<Rightarrow> num" where
  "a + b = (case (a, b) of (Finite x, Finite y) \<Rightarrow> Finite (x + y) | _ \<Rightarrow> NotANumber)"

definition minus_num :: "num \<Rightarrow> num \<Rightarrow> num" where
  "a - b = (case (a, b) of (Finite x, Finite y) \<Rightarrow> Finite (x - y) | _ \<Rightarrow> NotANumber)"

definition divide_num :: "num \<Rightarrow> num \<Rightarrow> num" where
  "a div b = (case (a, b) of
                (Finite x, Finite y) \<Rightarrow> if y = 0 then NotANumber else Finite (x / y)
              | _ \<Rightarrow> NotANumber)"

definition inverse_num :: "num \<Rightarrow> num" where
  "inverse a = Finite 1 div a"

definition less_num :: "num \<Rightarrow> num \<Rightarrow> bool" where
  "a < b = (case (a, b) of (Finite x, Finite y) \<Rightarrow> x < y | _ \<Rightarrow> False)"

definition less_eq_num :: "num \<Rightarrow> num \<Rightarrow> bool" where
  "a \<le> b = (case (a, b) of (Finite x, Finite y) \<Rightarrow> x \<le> y | _ \<Rightarrow> False)"

instance ..

end

definition digits_value :: "string \<Rightarrow> nat" where
  "digits_value s = foldl (\<lambda>a c. 10 * a + (of_char c - 48)) 0 s"

definition sample_Number :: "string \<Rightarrow> num" where
  "sample_Number s =
     (case trim s of
        [] \<Rightarrow> Finite 0
      | c # cs \<Rightarrow>
          if (c = CHR ''-'' \<or> c = CHR ''+'') \<and> cs \<noteq> [] \<and> list_all is_digit cs
          then Finite ((if c = CHR ''-'' then - 1 else 1) * of_nat (digits_value cs))
          else if list_all is_digit (c # cs) then Finite (of_nat (digits_value (c # cs)))
          else NotANumber)"

fun sample_isNaN :: "num \<Rightarrow> bool" where
  "sample_isNaN NotANumber = True"
| "sample_isNaN (Finite x) = False"

text \<open>Days from 1970-01-01 to a date of the proleptic Gregorian calendar.\<close>

definition days_from_civil :: "int \<Rightarrow> int \<Rightarrow> int \<Rightarrow> int" where
  "days_from_civil y m d =
     (let y' = (if m \<le> 2 then y - 1 else y);
          era = y' div 400;
          yoe = y' - era * 400;
          doy = (153 * (if m > 2 then m - 3 else m + 9) + 2) div 5 + d - 1;
          doe = yoe * 365 + yoe div 4 - yoe div 100 + doy
      in era * 146097 + doe - 719468)"

definition days_in_month :: "int \<Rightarrow> int \<Rightarrow> int" where
  "days_in_month y m =
     (if m = 2 then (if y mod 4 = 0 \<and> (y mod 100 \<noteq> 0 \<or> y mod 400 = 0) then 29 else 28)
      else if m = 4 \<or> m = 6 \<or> m = 9 \<or> m = 11 then 30 else 31)"

definition sample_Date :: "string \<Rightarrow> int option" where
  "sample_Date s =
     (if length s = 10 \<and> s ! 4 = CHR ''-'' \<and> s ! 7 = CHR ''-'' \<and>
         list_all is_digit (take 4 s @ take 2 (drop 5 s) @ drop 8 s)
      then
        (let y = int (digits_value (take 4 s));
             m = int (digits_value (take 2 (drop 5 s)));
             d = int (digits_value (drop 8 s))
         in if 1 \<le> m \<and> m \<le> 12 \<and> 1 \<le> d \<and> d \<le> days_in_month y m
            then Some (days_from_civil y m d * 86400000) else None)
      else None)"

fun compare_units :: "string \<Rightarrow> string \<Rightarrow> int" where
  "compare_units [] [] = 0"
| "compare_units [] (b # bs) = - 1"
| "compare_units (a # as) [] = 1"
| "compare_units (a # as) (b # bs) =
     (if (of_char a :: nat) < of_char b then - 1
      else if (of_char b :: nat) < of_char a then 1
      else compare_units as bs)"

definition sample_toString :: "num \<Rightarrow> string" where
  "sample_toString a =
     (case a of
        NotANumber \<Rightarrow> ''NaN''
      | Finite x \<Rightarrow> (if x < 0 then ''-'' else []) @ string_of_nat (nat \<bar>\<lfloor>x\<rfloor>\<bar>))"

definition sample_Date_num :: "num \<Rightarrow> int option" where
  "sample_Date_num a = (case a of NotANumber \<Rightarrow> None | Finite x \<Rightarrow> Some \<lfloor>x\<rfloor>)"

definition sample :: "num host" where
  "sample =
     \<lparr> Number_str = sample_Number, isNaN = sample_isNaN, NaN = NotANumber,
       num_of_nat = (\<lambda>k. Finite (of_nat k)), num_toString = sample_toString,
       Date_str = sample_Date, Date_num = sample_Date_num,
       localeCompare = (\<lambda>a b. Finite (of_int (compare_units a b))),
       typeError_message =
         (\<lambda>p. if p = ''[ToPrimitive]'' then ''Cannot convert object to primitive value''
              else ''Cannot read properties of null (reading '' @ [CHR 0x27] @ p @ [CHR 0x27] @ '')'') \<rparr>"


section \<open>Notions for the statements about the pattern matcher\<close>

text \<open>Every \<open>>\<close> of the text is directly followed by \<open>=\<close>: the text compares with \<open>>=\<close> only.\<close>

fun every_gt_before_eq :: "string \<Rightarrow> bool" where
  "every_gt_before_eq [] = True"
| "every_gt_before_eq [c] = (c \<noteq> CHR ''>'')"
| "every_gt_before_eq (c # d # s) =
     ((if c = CHR ''>'' then d = CHR ''='' else True) \<and> every_gt_before_eq (d # s))"

text \<open>What a piece of a regex can match: a text of its class whose length its quantifier allows.\<close>

fun piece_ok :: "piece \<Rightarrow> string \<Rightarrow> bool" where
  "piece_ok (Piece p q cap) w =
     (list_all p w \<and> lo_count q \<le> length w \<and> length w \<le> hi_count q (length w))"

text \<open>The first template, \<open>/(\w+)\s*>\s*(\d+)/g\<close>.\<close>

definition greater_regex :: regex where
  "greater_regex = fst (patterns ! 0)"

text \<open>The rows of the specification's sorting example.\<close>

definition spec_rows :: "num GridRow list" where
  "spec_rows =
     [[(''category'', Str ''10'')], [(''category'', Str ''2'')],
      [(''category'', Str ''bravo'')], [(''category'', Str ''alpha'')]]"

section \<open>Properties of the pattern matcher\<close>

lemma hi_count_le: "hi_count q run \<le> run"
  by (cases q) auto

text \<open>A match consumes at least the least length of its regex.\<close>

lemma match_from_length:
  "match_from r s = Some (caps, rest) \<Longrightarrow> length rest + min_len r \<le> length s"
  "try_counts r cap s ks = Some (caps, rest) \<Longrightarrow> \<forall>k \<in> set ks. lo \<le> k \<and> k \<le> length s \<Longrightarrow>
   length rest + (lo + min_len r) \<le> length s"
proof (induction r s and r cap s ks arbitrary: caps rest and caps rest lo
    rule: match_from_try_counts.induct)
  case (1 s)
  then show ?case by simp
next
  case (2 p q cap ps s)
  let ?run = "length (takeWhile p s)"
  let ?ks = "rev [lo_count q ..< Suc (hi_count q ?run)]"
  have bounds: "\<forall>k \<in> set ?ks. lo_count q \<le> k \<and> k \<le> length s"
    using hi_count_le [of q ?run] length_takeWhile_le [of p s] by auto
  from "2.prems" have tc: "try_counts ps cap s ?ks = Some (caps, rest)" by simp
  have "length rest + (lo_count q + min_len ps) \<le> length s"
    by (rule "2.IH" [OF tc bounds])
  then show ?case by simp
next
  case (3 ps cap s)
  then show ?case by simp
next
  case (4 ps cap s k ks)
  show ?case
  proof (cases "match_from ps (drop k s)")
    case None
    with "4.prems" have "try_counts ps cap s ks = Some (caps, rest)"
      and "\<forall>k \<in> set ks. lo \<le> k \<and> k \<le> length s" by simp_all
    then show ?thesis by (rule "4.IH"(2) [OF None])
  next
    case (Some m)
    obtain caps' rest' where m: "m = (caps', rest')" by (cases m)
    with Some "4.prems"(1) have "rest' = rest" by simp
    with Some m have "match_from ps (drop k s) = Some (caps', rest)" by simp
    then have "length rest + min_len ps \<le> length (drop k s)"
      by (rule "4.IH"(1))
    moreover from "4.prems"(2) have "lo \<le> k" "k \<le> length s" by simp_all
    ultimately show ?thesis by simp
  qed
qed

lemma search_length:
  "search r s = Some (caps, rest) \<Longrightarrow> length rest + min_len r \<le> length s"
proof (induction s)
  case Nil
  then show ?case using match_from_length(1) [of r "[]" caps rest] by simp
next
  case (Cons c s)
  then show ?case
    using match_from_length(1) [of r "c # s" caps rest]
    by (auto split: option.splits)
qed

text \<open>
  The loop of a template that cannot match the empty string ends: every match moves
  \<open>lastIndex\<close> forward.
\<close>

lemma exec_loop_total:
  assumes "0 < min_len r"
  shows "\<exists>fs. exec_loop now ed r opr s acc = Some fs"
proof (induction "length s" arbitrary: s acc rule: less_induct)
  case less
  show ?case
  proof (cases "search r s")
    case None
    then show ?thesis by (subst exec_loop.simps) simp
  next
    case (Some m)
    obtain caps rest where m: "m = (caps, rest)" by (cases m)
    with Some assms have "length rest < length s"
      using search_length [of r s caps rest] by simp
    from less [OF this] obtain fs where
      "exec_loop now ed r opr rest (push_match now ed opr caps acc) = Some fs" by blast
    with Some m show ?thesis by (subst exec_loop.simps) simp
  qed
qed

lemma forEach_pattern_total:
  "list_all (\<lambda>(r, opr). 0 < min_len r) ps \<Longrightarrow> \<exists>fs. forEach_pattern now ed ps q acc = Some fs"
proof (induction ps arbitrary: acc)
  case Nil
  then show ?case by simp
next
  case (Cons a ps)
  obtain r opr where a: "a = (r, opr)" by (cases a)
  with Cons.prems have "0 < min_len r" by simp
  from exec_loop_total [OF this]
  obtain fs where "exec_loop now ed r opr q acc = Some fs" by blast
  moreover from Cons.prems have "list_all (\<lambda>(r, opr). 0 < min_len r) ps" by simp
  ultimately show ?case using Cons.IH a by simp
qed

lemma patterns_min_len: "list_all (\<lambda>(r, opr). 0 < min_len r) patterns"
  by (simp add: patterns_def lits_def lit_def)

text \<open>The pattern matcher returns for every query, with or without a table.\<close>

lemma parseBasicQuery_total: "\<exists>fs. parseBasicQuery now ed q = Some fs"
  unfolding parseBasicQuery_def by (rule forEach_pattern_total [OF patterns_min_len])

lemma string_of_nat_small:
  "string_of_nat 0 = ''0''" "string_of_nat (Suc 0) = ''1''" "string_of_nat 2 = ''2''"
  by code_simp+

lemmas eval_defs =
  patterns_def lits_def lit_def is_word_def is_space_def is_digit_def not_comma_space_def
  toLowerCase_def toLowerCase_char_def push_match_def matchingColumn_def trim_def

lemmas sample_defs =
  sample_def sample_Number_def sample_Date_def sample_toString_def sample_Date_num_def
  digits_value_def trim_def is_space_def is_digit_def days_from_civil_def days_in_month_def
  plus_num_def minus_num_def divide_num_def less_num_def less_eq_num_def

lemmas agg_defs =
  aggregateDataForChart_def add_row_def init_entry_def add_value_def xValue_of_def result_row_def
  compare_rows_def sort_by_def get_def put_def Let_def

text \<open>
  C8. For the query \<open>sales > 15000 and status contains active\<close> against the columns \<open>sales\<close>
  and \<open>status\<close>, the pattern matcher returns exactly two filters: column \<open>sales\<close>, operator
  \<open>greater\<close>, value \<open>15000\<close>, and column \<open>status\<close>, operator \<open>contains\<close>, value \<open>active\<close>. This
  holds whatever the clock reads and whatever the rows of the table are.
\<close>

theorem parseBasicQuery_sales_status:
  "parseBasicQuery now (Some \<lparr> headers = [''sales'', ''status''], rows = rs \<rparr>)
     ''sales > 15000 and status contains active'' =
   Some [ \<lparr> filter_id = ''basic_filter_'' @ string_of_nat (now 0) @ ''_0'',
            column = ''sales'', operator = ''greater'', filter_value = ''15000'' \<rparr>,
          \<lparr> filter_id = ''basic_filter_'' @ string_of_nat (now 1) @ ''_1'',
            column = ''status'', operator = ''contains'', filter_value = ''active'' \<rparr> ]"
  unfolding parseBasicQuery_def
  apply (simp add: eval_defs)
  apply (subst exec_loop.simps, simp add: eval_defs string_of_nat_small)+
  done

section \<open>The \<open>>\<close> template and \<open>>=\<close>\<close>

lemma toLowerCase_char_gt: "toLowerCase_char c = CHR ''>'' \<longleftrightarrow> c = CHR ''>''"
  by (auto simp: toLowerCase_char_def Let_def char_of_eq_iff take_bit_eq_mod)

lemma toLowerCase_char_eq: "toLowerCase_char c = CHR ''='' \<longleftrightarrow> c = CHR ''=''"
  by (auto simp: toLowerCase_char_def Let_def char_of_eq_iff take_bit_eq_mod)

lemma every_gt_before_eq_toLowerCase:
  "every_gt_before_eq (toLowerCase q) = every_gt_before_eq q"
  unfolding toLowerCase_def
  by (induction q rule: every_gt_before_eq.induct)
     (simp_all add: toLowerCase_char_gt toLowerCase_char_eq)

lemma every_gt_before_eq_tl: "every_gt_before_eq (c # s) \<Longrightarrow> every_gt_before_eq s"
  by (cases s) simp_all

lemma every_gt_before_eq_at:
  "every_gt_before_eq (pre @ CHR ''>'' # post) \<Longrightarrow> \<exists>post'. post = CHR ''='' # post'"
proof (induction pre)
  case Nil
  then show ?case by (cases post) simp_all
next
  case (Cons a pre)
  from Cons.prems have "every_gt_before_eq (pre @ CHR ''>'' # post)"
    using every_gt_before_eq_tl [of a "pre @ CHR ''>'' # post"] by simp
  then show ?case by (rule Cons.IH)
qed

lemma try_counts_Some:
  "try_counts ps cap s ks = Some (caps, rest) \<Longrightarrow>
     \<exists>k \<in> set ks. \<exists>caps'. match_from ps (drop k s) = Some (caps', rest)"
  by (induction ks) (auto split: option.splits)

lemma match_from_sound:
  "match_from r s = Some (caps, rest) \<Longrightarrow> \<exists>ws. list_all2 piece_ok r ws \<and> s = concat ws @ rest"
proof (induction r arbitrary: s caps)
  case Nil
  then show ?case by simp
next
  case (Cons a r)
  obtain p q cap where a: "a = Piece p q cap" by (cases a)
  let ?run = "length (takeWhile p s)"
  from Cons.prems a
  have "try_counts r cap s (rev [lo_count q ..< Suc (hi_count q ?run)]) = Some (caps, rest)"
    by simp
  from try_counts_Some [OF this] obtain k caps' where
    k: "lo_count q \<le> k" "k \<le> hi_count q ?run" and
    m: "match_from r (drop k s) = Some (caps', rest)"
    by auto
  from Cons.IH [OF m] obtain ws where ws: "list_all2 piece_ok r ws" "drop k s = concat ws @ rest"
    by blast
  have run: "k \<le> ?run" using k(2) hi_count_le [of q ?run] by simp
  then have len: "length (take k s) = k" using length_takeWhile_le [of p s] by simp
  have "take k s = take k (takeWhile p s @ dropWhile p s)" by simp
  also have "\<dots> = take k (takeWhile p s)" using run by (simp del: takeWhile_dropWhile_id)
  finally have "set (take k s) \<subseteq> set (takeWhile p s)" by (simp add: set_take_subset)
  then have all: "list_all p (take k s)"
    by (auto simp: list_all_iff dest: set_takeWhileD)
  have hi: "k \<le> hi_count q k"
    using k(2) run by (cases q) auto
  have "piece_ok a (take k s)" using a all k(1) hi len by simp
  moreover have "s = concat (take k s # ws) @ rest"
  proof -
    have "s = take k s @ drop k s" by simp
    also have "\<dots> = take k s @ concat ws @ rest" by (simp only: ws(2))
    finally show ?thesis by simp
  qed
  ultimately show ?case using ws(1) by (intro exI [of _ "take k s # ws"]) simp
qed

lemma greater_regex_eq:
  "greater_regex =
     [Piece is_word OneOrMore True, Piece is_space ZeroOrMore False, lit CHR ''>'',
      Piece is_space ZeroOrMore False, Piece is_digit OneOrMore True]"
  by (simp add: greater_regex_def patterns_def lits_def)

lemma not_eq_sign: "is_space c \<or> is_digit c \<Longrightarrow> c \<noteq> CHR ''=''"
  by (auto simp: is_space_def is_digit_def)

lemma greater_match_not_ge:
  assumes "match_from greater_regex s = Some (caps, rest)"
  shows "\<not> every_gt_before_eq s"
proof
  assume e: "every_gt_before_eq s"
  from match_from_sound [OF assms] obtain ws where
    ws: "list_all2 piece_ok greater_regex ws" and s: "s = concat ws @ rest" by blast
  from ws obtain w sp g sp' d where
    shape: "ws = [w, sp, g, sp', d]" and g: "piece_ok (lit CHR ''>'') g"
    and sp': "list_all is_space sp'" and d: "list_all is_digit d" "Suc 0 \<le> length d"
    by (auto simp: greater_regex_eq list_all2_Cons1)
  from g have "g = [CHR ''>'']"
    by (cases g) (auto simp: lit_def)
  with s shape have "s = (w @ sp) @ CHR ''>'' # (sp' @ d @ rest)" by simp
  with e obtain post where post: "sp' @ d @ rest = CHR ''='' # post"
    using every_gt_before_eq_at [of "w @ sp" "sp' @ d @ rest"] by auto
  show False
  proof (cases sp')
    case Nil
    with post d obtain d' where "d = CHR ''='' # d'" by (cases d) auto
    with d(1) show False using not_eq_sign [of "CHR ''=''"] by simp
  next
    case (Cons c cs)
    with post sp' show False using not_eq_sign [of "CHR ''=''"] by simp
  qed
qed

lemma greater_search_not_ge:
  "every_gt_before_eq s \<Longrightarrow> search greater_regex s = None"
proof (induction s)
  case Nil
  then show ?case using greater_match_not_ge [of "[]"] by (cases "match_from greater_regex []") auto
next
  case (Cons c s)
  have "match_from greater_regex (c # s) = None"
    using greater_match_not_ge [of "c # s"] Cons.prems
    by (cases "match_from greater_regex (c # s)") auto
  moreover have "search greater_regex s = None"
    using Cons.IH every_gt_before_eq_tl [OF Cons.prems] by simp
  ultimately show ?case by simp
qed

lemma push_match_operator:
  "opr \<noteq> x \<Longrightarrow> x \<notin> operator ` set acc \<Longrightarrow> x \<notin> operator ` set (push_match now ed opr caps acc)"
  by (auto simp: push_match_def split: list.splits option.splits)

lemma exec_loop_operator:
  assumes "0 < min_len r" and "opr \<noteq> x"
  shows "x \<notin> operator ` set acc \<Longrightarrow> exec_loop now ed r opr s acc = Some fs \<Longrightarrow>
         x \<notin> operator ` set fs"
proof (induction "length s" arbitrary: s acc rule: less_induct)
  case less
  show ?case
  proof (cases "search r s")
    case None
    with less.prems show ?thesis by (subst (asm) exec_loop.simps) simp
  next
    case (Some m)
    obtain caps rest where m: "m = (caps, rest)" by (cases m)
    with Some assms(1) have len: "length rest < length s"
      using search_length [of r s caps rest] by simp
    from less.prems(2) Some m
    have "exec_loop now ed r opr rest (push_match now ed opr caps acc) = Some fs"
      by (subst (asm) exec_loop.simps) simp
    with less.hyps [OF len push_match_operator [OF assms(2) less.prems(1)]] show ?thesis .
  qed
qed

lemma forEach_pattern_operator:
  "list_all (\<lambda>(r, opr). 0 < min_len r \<and> opr \<noteq> x) ps \<Longrightarrow> x \<notin> operator ` set acc \<Longrightarrow>
   forEach_pattern now ed ps q acc = Some fs \<Longrightarrow> x \<notin> operator ` set fs"
proof (induction ps arbitrary: acc)
  case Nil
  then show ?case by simp
next
  case (Cons a ps)
  obtain r opr where a: "a = (r, opr)" by (cases a)
  with Cons.prems(1) have r: "0 < min_len r" "opr \<noteq> x"
    and ps: "list_all (\<lambda>(r, opr). 0 < min_len r \<and> opr \<noteq> x) ps" by simp_all
  from Cons.prems(3) a obtain mid where
    mid: "exec_loop now ed r opr q acc = Some mid" and
    rest: "forEach_pattern now ed ps q mid = Some fs"
    by (auto split: option.splits)
  have "x \<notin> operator ` set mid"
    by (rule exec_loop_operator [OF r Cons.prems(2) mid])
  then show ?case by (rule Cons.IH [OF ps _ rest])
qed

lemma patterns_split:
  "patterns = (greater_regex, ''greater'') # tl patterns"
  "list_all (\<lambda>(r, opr). 0 < min_len r \<and> opr \<noteq> ''greater'') (tl patterns)"
  by (simp_all add: greater_regex_def patterns_def lits_def lit_def)

lemma parseBasicQuery_sales_ge:
  "parseBasicQuery (\<lambda>i. 0) (Some \<lparr> headers = [''sales''], rows = [] \<rparr>) ''sales >= 100'' =
     Some [\<lparr> filter_id = ''basic_filter_0_0'', column = ''sales'', operator = ''greaterEqual'',
             filter_value = ''100'' \<rparr>]"
  unfolding parseBasicQuery_def
  apply (simp add: eval_defs)
  apply (subst exec_loop.simps, simp add: eval_defs string_of_nat_small)+
  done

text \<open>
  C9 (as amended). The specification says that a \<open>>=\<close> comparison also matches the \<open>greater\<close>
  template on its \<open>>\<close>, so that a \<open>greater\<close> and a \<open>greaterEqual\<close> filter come back. The
  template \<open>(\w+)\s*>\s*(\d+)\<close> wants white space or a digit right after its \<open>>\<close>, and in
  \<open>>=\<close> the next character is \<open>=\<close>. So: for every query in which every \<open>>\<close> is directly
  followed by \<open>=\<close>, and every table and clock, the \<open>greater\<close> template finds no match in the
  lower-cased query, the pattern matcher returns, and no filter of its result has the
  operator \<open>greater\<close>.
\<close>

theorem ge_query_gives_no_greater:
  assumes "every_gt_before_eq q"
  shows "search greater_regex (toLowerCase q) = None \<and>
         (\<exists>fs. parseBasicQuery now ed q = Some fs \<and> ''greater'' \<notin> operator ` set fs)"
proof -
  obtain fs where fs: "parseBasicQuery now ed q = Some fs"
    using parseBasicQuery_total by blast
  let ?q = "toLowerCase q"
  from assms have none: "search greater_regex ?q = None"
    by (simp add: greater_search_not_ge every_gt_before_eq_toLowerCase)
  then have "exec_loop now ed greater_regex ''greater'' ?q [] = Some []"
    by (subst exec_loop.simps) simp
  with fs have "forEach_pattern now ed (tl patterns) ?q [] = Some fs"
    unfolding parseBasicQuery_def by (subst (asm) patterns_split(1)) simp
  then have "''greater'' \<notin> operator ` set fs"
    using forEach_pattern_operator [OF patterns_split(2), of "[]"] by simp
  with fs none show ?thesis by blast
qed

text \<open>The theorem at the specification's example \<open>sales >= 100\<close>.\<close>

theorem ge_query_gives_no_greater_witness:
  "every_gt_before_eq ''sales >= 100'' \<and>
   search greater_regex (toLowerCase ''sales >= 100'') = None \<and>
   (\<exists>fs. parseBasicQuery (\<lambda>i. 0) (Some \<lparr> headers = [''sales''], rows = [] \<rparr>) ''sales >= 100'' = Some fs \<and>
         ''greater'' \<notin> operator ` set fs)"
proof -
  have e: "every_gt_before_eq ''sales >= 100''" by simp
  from ge_query_gives_no_greater [OF e, of "\<lambda>i. 0" "Some \<lparr> headers = [''sales''], rows = [] \<rparr>"] e
  show ?thesis by blast
qed

text \<open>
  The claim as stated fails at its own example: on \<open>sales >= 100\<close> with the column \<open>sales\<close> the
  \<open>greater\<close> template finds no match, and the result is the one \<open>greaterEqual\<close> filter.
\<close>

theorem ge_query_single_filter_counterexample:
  "search (fst (patterns ! 0)) ''sales >= 100'' = None \<and>
   parseBasicQuery (\<lambda>i. 0) (Some \<lparr> headers = [''sales''], rows = [] \<rparr>) ''sales >= 100'' =
     Some [\<lparr> filter_id = ''basic_filter_0_0'', column = ''sales'', operator = ''greaterEqual'',
             filter_value = ''100'' \<rparr>]"
proof -
  have "search (fst (patterns ! 0)) ''sales >= 100'' = None"
    by (simp add: eval_defs)
  with parseBasicQuery_sales_ge show ?thesis by simp
qed

lemma foldl_filter:
  "foldl (\<lambda>res f. filter (P f) res) data fs = filter (\<lambda>row. list_all (\<lambda>f. P f row) fs) data"
proof (induction fs arbitrary: data)
  case Nil
  then show ?case by simp
next
  case (Cons f fs)
  have "foldl (\<lambda>res f. filter (P f) res) data (f # fs) =
        filter (\<lambda>row. list_all (\<lambda>f. P f row) fs) (filter (P f) data)"
    by (simp add: Cons.IH)
  also have "\<dots> = filter (\<lambda>row. list_all (\<lambda>f. P f row) (f # fs)) data"
    by (simp add: conj_commute)
  finally show ?case .
qed

text \<open>With a filter list passed, the result is the rows that satisfy every filter of it.\<close>

lemma applyFilters_custom:
  "applyFilters h sf iv data (Some fs) =
     Inr (filter (\<lambda>row. list_all (\<lambda>f. matches h f row) fs) data)"
  by (simp add: applyFilters_def foldl_filter)

lemma matches_missing:
  "get row (column f) = Undefined \<or> get row (column f) = Null \<Longrightarrow> \<not> matches h f row"
  by (auto simp: matches_def)

text \<open>
  Every cell of a row that \<open>convertToGridData\<close> builds is a text: reading a key of such a row
  gives a text, or \<open>undefined\<close> when the table has no such column.
\<close>

lemma put_values: "snd ` set (put key v row) \<subseteq> insert v (snd ` set row)"
  unfolding put_def by (induction row) auto

lemma foldl_put_text:
  "\<forall>v \<in> snd ` set acc. \<exists>s. v = Str s \<Longrightarrow>
   \<forall>v \<in> snd ` set (foldl (\<lambda>rowObj (header, index). put header (Str (cell_or_empty r index)) rowObj)
                         acc hs). \<exists>s. v = Str s"
proof (induction hs arbitrary: acc)
  case Nil
  then show ?case by simp
next
  case (Cons a hs)
  obtain header index where a: "a = (header, index)" by (cases a)
  have "\<forall>v \<in> snd ` set (put header (Str (cell_or_empty r index)) acc). \<exists>s. v = Str s"
    using Cons.prems put_values [of header "Str (cell_or_empty r index)" acc] by blast
  from Cons.IH [OF this] a show ?case by simp
qed

lemma convertToGridData_text:
  assumes "row \<in> set (convertToGridData d)"
  shows "get row key = Undefined \<or> (\<exists>s. get row key = Str s)"
proof -
  from assms obtain r where
    row: "row = foldl (\<lambda>rowObj (header, index). put header (Str (cell_or_empty r index)) rowObj)
                  [] (zip (headers d) [0 ..< length (headers d)])"
    by (auto simp: convertToGridData_def)
  have all: "\<forall>v \<in> snd ` set row. \<exists>s. v = Str s"
    unfolding row by (rule foldl_put_text) simp
  show ?thesis
  proof (cases "map_of row key")
    case None
    then show ?thesis by (simp add: get_def)
  next
    case (Some v)
    then have "v \<in> snd ` set row" by (force dest: map_of_SomeD)
    with all Some show ?thesis by (auto simp: get_def)
  qed
qed

text \<open>
  C2 (as amended). If the row's cell for the filter's column is \<open>undefined\<close> (the row has no
  such key) or \<open>null\<close>, the filter does not match the row, whatever its operator, and a filter
  list that contains the filter excludes the row. The empty string is not such a cell: it
  is compared like any other text.
\<close>

theorem missing_cell_never_matches:
  assumes "get row (column f) = Undefined \<or> get row (column f) = Null" and "f \<in> set fs"
  shows "\<not> matches h f row \<and>
         (\<exists>res. applyFilters h sf iv data (Some fs) = Inr res \<and> row \<notin> set res)"
proof -
  from assms(1) have nm: "\<not> matches h f row" by (rule matches_missing)
  with assms(2) have "\<not> list_all (\<lambda>f. matches h f row) fs"
    by (auto simp: list_all_iff)
  then have "row \<notin> set (filter (\<lambda>row. list_all (\<lambda>f. matches h f row) fs) data)" by simp
  with nm show ?thesis by (simp add: applyFilters_custom)
qed

theorem missing_cell_never_matches_witness:
  "get [(''name'', Str ''ann'')] ''age'' = (Undefined :: num jsval) \<and>
   \<not> matches sample \<lparr> filter_id = ''f1'', column = ''age'', operator = ''contains'', filter_value = [] \<rparr>
       [(''name'', Str ''ann'')] \<and>
   applyFilters sample [] [] [[(''name'', Str ''ann'')]]
     (Some [\<lparr> filter_id = ''f1'', column = ''age'', operator = ''contains'', filter_value = [] \<rparr>]) = Inr []"
proof -
  let ?row = "[(''name'', Str ''ann'')] :: num GridRow"
  let ?f = "\<lparr> filter_id = ''f1'', column = ''age'', operator = ''contains'', filter_value = [] \<rparr>"
  have h: "get ?row (column ?f) = Undefined \<or> get ?row (column ?f) = Null"
    by (simp add: get_def)
  have m: "?f \<in> set [?f]" by simp
  from missing_cell_never_matches [OF h m, of sample "[]" "[]" "[?row]"]
  show ?thesis by (auto simp: get_def applyFilters_custom matches_def)
qed

text \<open>
  The claim as stated fails for the empty string: a cell \<open>""\<close> contains the filter value \<open>""\<close>,
  and the row stays.
\<close>

theorem empty_cell_matches_counterexample:
  "applyFilters sample [] [] [[(''name'', Str [])]]
     (Some [\<lparr> filter_id = ''f1'', column = ''name'', operator = ''contains'', filter_value = [] \<rparr>])
   = Inr [[(''name'', Str [])]]"
  by (simp add: applyFilters_def matches_def get_def toLowerCase_def)

text \<open>
  C6. For every row list and every two filters, applying \<open>[f1, f2]\<close> and applying \<open>[f2, f1]\<close>
  give the same rows.
\<close>

theorem filter_order_invariant:
  "applyFilters h sf iv data (Some [f1, f2]) = applyFilters h sf iv data (Some [f2, f1])"
  by (simp add: applyFilters_custom conj_commute)

lemma matches_ordered:
  assumes "operator f \<in> set ordered_operators" and "get row (column f) = Str c"
  shows "matches h f row =
           (if \<not> isNaN h (Number_str h c) \<and> \<not> isNaN h (Number_str h (filter_value f))
            then spec_compare (operator f) (Number_str h c) (Number_str h (filter_value f))
            else (case (Date_str h c, Date_str h (filter_value f)) of
                    (Some cd, Some fd) \<Rightarrow> spec_compare (operator f) cd fd
                  | _ \<Rightarrow> False))"
  using assms
  by (auto simp: matches_def ordered_operators_def ordered_case_def spec_compare_def Let_def
           split: option.splits)

text \<open>
  C5. For a text cell \<open>c\<close>, a filter value \<open>v\<close> and each of the operators \<open>greater\<close>, \<open>less\<close>,
  \<open>greaterEqual\<close>, \<open>lessEqual\<close>: if both \<open>c\<close> and \<open>v\<close> coerce to numbers, the row is kept exactly
  when the numeric comparison holds; otherwise, if both coerce to dates, exactly when the
  comparison of the dates holds; otherwise the row is excluded.
\<close>

theorem ordered_operators_cascade:
  assumes "operator f \<in> set ordered_operators" and "get row (column f) = Str c"
  shows "applyFilters h sf iv [row] (Some [f]) =
           Inr (if (if \<not> isNaN h (Number_str h c) \<and> \<not> isNaN h (Number_str h (filter_value f))
                    then spec_compare (operator f) (Number_str h c) (Number_str h (filter_value f))
                    else (case (Date_str h c, Date_str h (filter_value f)) of
                            (Some cd, Some fd) \<Rightarrow> spec_compare (operator f) cd fd
                          | _ \<Rightarrow> False))
                then [row] else [])"
  using matches_ordered [OF assms, of h] by (simp add: applyFilters_custom)

text \<open>
  On the sample host: \<open>30 > 28\<close> as numbers; \<open>2024-01-01\<close> is not before itself and
  \<open>2023-06-15\<close> is before it, as dates; \<open>ann\<close> and \<open>bob\<close> are neither, so the row is excluded.
\<close>

theorem ordered_operators_cascade_witness:
  "applyFilters sample [] [] [[(''age'', Str ''30'')]]
     (Some [\<lparr> filter_id = ''f1'', column = ''age'', operator = ''greater'', filter_value = ''28'' \<rparr>])
     = Inr [[(''age'', Str ''30'')]] \<and>
   applyFilters sample [] [] [[(''date'', Str ''2024-01-01'')]]
     (Some [\<lparr> filter_id = ''f2'', column = ''date'', operator = ''less'', filter_value = ''2024-01-01'' \<rparr>])
     = Inr [] \<and>
   applyFilters sample [] [] [[(''date'', Str ''2023-06-15'')]]
     (Some [\<lparr> filter_id = ''f2'', column = ''date'', operator = ''less'', filter_value = ''2024-01-01'' \<rparr>])
     = Inr [[(''date'', Str ''2023-06-15'')]] \<and>
   applyFilters sample [] [] [[(''name'', Str ''ann'')]]
     (Some [\<lparr> filter_id = ''f3'', column = ''name'', operator = ''lessEqual'', filter_value = ''bob'' \<rparr>])
     = Inr []"
proof -
  let ?f1 = "\<lparr> filter_id = ''f1'', column = ''age'', operator = ''greater'', filter_value = ''28'' \<rparr>"
  let ?f2 = "\<lparr> filter_id = ''f2'', column = ''date'', operator = ''less'', filter_value = ''2024-01-01'' \<rparr>"
  let ?f3 = "\<lparr> filter_id = ''f3'', column = ''name'', operator = ''lessEqual'', filter_value = ''bob'' \<rparr>"
  have o1: "operator ?f1 \<in> set ordered_operators" and o2: "operator ?f2 \<in> set ordered_operators"
    and o3: "operator ?f3 \<in> set ordered_operators"
    by (simp_all add: ordered_operators_def)
  have g1: "get [(''age'', Str ''30'')] (column ?f1) = (Str ''30'' :: num jsval)"
    and g2: "get [(''date'', Str ''2024-01-01'')] (column ?f2) = (Str ''2024-01-01'' :: num jsval)"
    and g3: "get [(''date'', Str ''2023-06-15'')] (column ?f2) = (Str ''2023-06-15'' :: num jsval)"
    and g4: "get [(''name'', Str ''ann'')] (column ?f3) = (Str ''ann'' :: num jsval)"
    by (simp_all add: get_def)
  show ?thesis
    using ordered_operators_cascade [OF o1 g1, of sample "[]" "[]"]
      ordered_operators_cascade [OF o2 g2, of sample "[]" "[]"]
      ordered_operators_cascade [OF o2 g3, of sample "[]" "[]"]
      ordered_operators_cascade [OF o3 g4, of sample "[]" "[]"]
    by (simp add: sample_defs spec_compare_def)
qed

text \<open>
  C10. A filter whose operator is none of the six keeps exactly the rows whose cell for its
  column is defined and not \<open>null\<close>: it matches every such row.
\<close>

theorem unknown_operator_keeps_defined:
  assumes "operator f \<notin> set recognized_operators"
  shows "applyFilters h sf iv data (Some [f]) =
           Inr (filter (\<lambda>row. case get row (column f) of
                                 Undefined \<Rightarrow> False | Null \<Rightarrow> False | _ \<Rightarrow> True) data)"
proof -
  have "matches h f row =
          (case get row (column f) of Undefined \<Rightarrow> False | Null \<Rightarrow> False | _ \<Rightarrow> True)" for row
    using assms
    by (auto simp: matches_def recognized_operators_def ordered_operators_def split: jsval.splits)
  then show ?thesis by (simp add: applyFilters_custom)
qed

theorem unknown_operator_keeps_defined_witness:
  "applyFilters sample [] [] [[(''name'', Str ''ann'')], [(''city'', Str ''oslo'')], [(''name'', Str [])]]
     (Some [\<lparr> filter_id = ''ai_filter_0_0'', column = ''name'', operator = ''startsWith'', filter_value = ''b'' \<rparr>])
   = Inr [[(''name'', Str ''ann'')], [(''name'', Str [])]]"
proof -
  let ?f = "\<lparr> filter_id = ''ai_filter_0_0'', column = ''name'', operator = ''startsWith'', filter_value = ''b'' \<rparr>"
  have u: "operator ?f \<notin> set recognized_operators"
    by (simp add: recognized_operators_def ordered_operators_def)
  show ?thesis
    using unknown_operator_keeps_defined [OF u, of sample "[]" "[]"
        "[[(''name'', Str ''ann'')], [(''city'', Str ''oslo'')], [(''name'', Str [])]]"]
    by (simp add: get_def)
qed

section \<open>Properties of the aggregation\<close>

text \<open>
  C3 (as amended). If the row list is empty, or \<open>xAxis\<close> or \<open>yAxis\<close> is the empty string, the
  aggregation returns the row list it was given, unchanged, and raises no error. That is
  the empty list when the row list is empty.
\<close>

theorem aggregate_passthrough:
  "data = [] \<or> xAxis = [] \<or> yAxis = [] \<Longrightarrow> aggregateDataForChart h data xAxis yAxis = data"
  by (simp add: aggregateDataForChart_def)

theorem aggregate_passthrough_witness:
  "aggregateDataForChart sample [] ''category'' ''sales'' = []"
proof -
  have "([] :: num GridRow list) = [] \<or> ''category'' = [] \<or> ''sales'' = []" by simp
  from aggregate_passthrough [OF this, of sample] show ?thesis .
qed

text \<open>
  The claim as stated fails when an axis is missing and there are rows: the rows come back,
  not the empty list.
\<close>

theorem aggregate_missing_axis_counterexample:
  "aggregateDataForChart sample [[(''category'', Str ''a''), (''sales'', Str ''10'')]] [] ''sales'' \<noteq> []"
  by (simp add: aggregateDataForChart_def)

lemma set_insert_by: "set (insert_by gt x ys) = insert x (set ys)"
  by (induction ys) auto

lemma set_sort_by: "set (sort_by gt xs) = set xs"
  unfolding sort_by_def by (induction xs) (auto simp: set_insert_by)

lemma length_insert_by: "length (insert_by gt x ys) = Suc (length ys)"
  by (induction ys) auto

lemma length_sort_by: "length (sort_by gt xs) = length xs"
  unfolding sort_by_def by (induction xs) (auto simp: length_insert_by)

lemma orders_consistently_iff:
  "orders_consistently gt xs \<longleftrightarrow>
     (\<forall>a \<in> set xs. \<forall>b \<in> set xs. (gt a b \<longrightarrow> \<not> gt b a) \<and>
        (\<forall>c \<in> set xs. \<not> gt a b \<and> \<not> gt b c \<longrightarrow> \<not> gt a c))"
  unfolding orders_consistently_def list_all_iff by auto

lemma sorted_insert_by:
  assumes asym: "\<And>a b. a \<in> S \<Longrightarrow> b \<in> S \<Longrightarrow> gt a b \<Longrightarrow> \<not> gt b a"
    and trans: "\<And>a b c. a \<in> S \<Longrightarrow> b \<in> S \<Longrightarrow> c \<in> S \<Longrightarrow> \<not> gt a b \<Longrightarrow> \<not> gt b c \<Longrightarrow> \<not> gt a c"
    and x: "x \<in> S"
  shows "set ys \<subseteq> S \<Longrightarrow> sorted_wrt (\<lambda>a b. \<not> gt a b) ys \<Longrightarrow>
         sorted_wrt (\<lambda>a b. \<not> gt a b) (insert_by gt x ys)"
proof (induction ys)
  case Nil
  then show ?case by simp
next
  case (Cons y ys)
  from Cons.prems have y: "y \<in> S" and ys: "set ys \<subseteq> S"
    and y_le: "\<forall>z \<in> set ys. \<not> gt y z" and sorted_ys: "sorted_wrt (\<lambda>a b. \<not> gt a b) ys"
    by simp_all
  show ?case
  proof (cases "gt x y")
    case True
    have "\<not> gt y x" by (rule asym [OF x y True])
    moreover have "sorted_wrt (\<lambda>a b. \<not> gt a b) (insert_by gt x ys)"
      by (rule Cons.IH [OF ys sorted_ys])
    ultimately show ?thesis using True y_le by (simp add: set_insert_by)
  next
    case False
    have "\<not> gt x z" if z: "z \<in> set ys" for z
    proof -
      from z ys have "z \<in> S" by blast
      moreover from z y_le have "\<not> gt y z" by blast
      ultimately show ?thesis using trans [OF x y _ False] by blast
    qed
    with False y_le sorted_ys show ?thesis by simp
  qed
qed

lemma sorted_sort_by:
  assumes "orders_consistently gt xs"
  shows "sorted_wrt (\<lambda>a b. \<not> gt a b) (sort_by gt xs)"
proof -
  let ?S = "set xs"
  from assms have all: "\<forall>a \<in> ?S. \<forall>b \<in> ?S. (gt a b \<longrightarrow> \<not> gt b a) \<and>
        (\<forall>c \<in> ?S. \<not> gt a b \<and> \<not> gt b c \<longrightarrow> \<not> gt a c)"
    by (simp only: orders_consistently_iff)
  have asym: "\<not> gt b a" if "a \<in> ?S" "b \<in> ?S" "gt a b" for a b
    using all that by blast
  have trans: "\<not> gt a c" if "a \<in> ?S" "b \<in> ?S" "c \<in> ?S" "\<not> gt a b" "\<not> gt b c" for a b c
    using all that by blast
  have "set ys \<subseteq> ?S \<Longrightarrow> sorted_wrt (\<lambda>a b. \<not> gt a b) (foldr (insert_by gt) ys [])" for ys
  proof (induction ys)
    case Nil
    then show ?case by simp
  next
    case (Cons y ys)
    from Cons.prems have y: "y \<in> ?S" and ys: "set ys \<subseteq> ?S" by simp_all
    have sub: "set (foldr (insert_by gt) ys []) \<subseteq> ?S"
      using ys set_sort_by [of gt ys] by (simp add: sort_by_def)
    have "sorted_wrt (\<lambda>a b. \<not> gt a b) (insert_by gt y (foldr (insert_by gt) ys []))"
      by (rule sorted_insert_by [where S = "?S", OF asym trans y sub Cons.IH [OF ys]])
    then show ?case by simp
  qed
  then show ?thesis by (simp add: sort_by_def)
qed

lemma add_row_distinct:
  "distinct (map fst agg) \<Longrightarrow> distinct (map fst (add_row h x y agg row))"
  by (simp add: add_row_def Let_def distinct_map_entry distinct_update split: option.splits)

lemma add_row_map_of:
  "map_of (add_row h x y agg row) k =
     (if k = xValue_of h x row
      then Some (add_value h (get row y)
                   (case map_of agg k of None \<Rightarrow> init_entry h | Some e \<Rightarrow> e))
      else map_of agg k)"
  by (simp add: add_row_def Let_def map_of_map_entry update_conv' init_entry_def split: option.splits)

lemma add_row_keys:
  "fst ` set (add_row h x y agg row) = insert (xValue_of h x row) (fst ` set agg)"
proof -
  have "k \<in> dom (map_of (add_row h x y agg row)) \<longleftrightarrow>
        k \<in> insert (xValue_of h x row) (dom (map_of agg))" for k
    by (auto simp: add_row_map_of split: if_splits)
  then have "dom (map_of (add_row h x y agg row)) = insert (xValue_of h x row) (dom (map_of agg))"
    by blast
  then show ?thesis by (simp add: dom_map_of_conv_image_fst)
qed

lemma foldl_add_row_distinct:
  "distinct (map fst agg) \<Longrightarrow> distinct (map fst (foldl (add_row h x y) agg data))"
  by (induction data arbitrary: agg) (simp_all add: add_row_distinct)

lemma foldl_add_row_keys:
  "fst ` set (foldl (add_row h x y) agg data) = fst ` set agg \<union> xValue_of h x ` set data"
  by (induction data arbitrary: agg) (auto simp: add_row_keys)

lemma foldl_add_row_map_of:
  "map_of (foldl (add_row h x y) agg data) k =
     (if k \<in> fst ` set agg \<union> xValue_of h x ` set data
      then Some (foldl (\<lambda>e row. add_value h (get row y) e)
                   (case map_of agg k of None \<Rightarrow> init_entry h | Some e \<Rightarrow> e)
                   (group_of h x k data))
      else None)"
proof (induction data arbitrary: agg)
  case Nil
  show ?case
    by (auto simp: group_of_def map_of_eq_None_iff split: option.splits)
next
  case (Cons row data)
  show ?case
    by (auto simp: Cons.IH add_row_keys add_row_map_of group_of_def map_of_eq_None_iff
             split: option.splits)
qed

lemma foldl_add_value:
  "foldl (\<lambda>e row. add_value h (get row y) e) e0 g =
     \<lparr> sum = foldl (+) (sum e0) (numeric_cells h y g),
       count = count e0 + length (numeric_cells h y g),
       values_of = values_of e0 @ map (\<lambda>row. get row y) g \<rparr>"
  by (induction g arbitrary: e0) (simp_all add: numeric_cells_def add_value_def Let_def)

lemma result_row_group:
  "result_row h x y (k, foldl (\<lambda>e row. add_value h (get row y) e) (init_entry h) g) =
     chart_row h x y k g"
  by (simp add: foldl_add_value result_row_def chart_row_def init_entry_def Let_def)

lemma set_foldl_add_row:
  "set (foldl (add_row h x y) [] data) =
     (\<lambda>k. (k, foldl (\<lambda>e row. add_value h (get row y) e) (init_entry h) (group_of h x k data)))
       ` xValue_of h x ` set data"
proof -
  let ?res = "foldl (add_row h x y) [] data"
  have d: "distinct (map fst ?res)" by (simp add: foldl_add_row_distinct)
  have "(k, e) \<in> set ?res \<longleftrightarrow>
          k \<in> xValue_of h x ` set data \<and>
          e = foldl (\<lambda>e row. add_value h (get row y) e) (init_entry h) (group_of h x k data)" for k e
    using map_of_eq_Some_iff [OF d, of k e] foldl_add_row_map_of [of h x y "[]" data k]
    by (auto split: if_splits)
  then show ?thesis by (auto simp: image_iff)
qed

text \<open>
  C4 (as amended). For a non-empty row list and non-empty \<open>xAxis\<close> and \<open>yAxis\<close>, the output has
  exactly one row for each group key, and the row of a group is: with at least one
  numerically coercible \<open>yAxis\<close> cell, the value is the sum of those cells, the count is the
  number of those cells (not the number of rows of the group), and the average is that sum
  divided by that number; with no such cell, the value is the number of rows of the group
  (not 0) and there is no count and no average.
\<close>

theorem aggregate_groups:
  assumes "data \<noteq> []" "xAxis \<noteq> []" "yAxis \<noteq> []"
  shows "set (aggregateDataForChart h data xAxis yAxis) =
           (\<lambda>k. chart_row h xAxis yAxis k (group_of h xAxis k data)) ` xValue_of h xAxis ` set data
         \<and> length (aggregateDataForChart h data xAxis yAxis) = card (xValue_of h xAxis ` set data)"
proof -
  let ?res = "foldl (add_row h xAxis yAxis) [] data"
  have eq: "aggregateDataForChart h data xAxis yAxis =
              sort_by (key_gt h xAxis) (map (result_row h xAxis yAxis) ?res)"
    using assms by (simp add: aggregateDataForChart_def key_gt_def [abs_def])
  have "set (map (result_row h xAxis yAxis) ?res) =
          (\<lambda>k. chart_row h xAxis yAxis k (group_of h xAxis k data)) ` xValue_of h xAxis ` set data"
    by (simp add: set_foldl_add_row image_image result_row_group)
  moreover have "length ?res = card (xValue_of h xAxis ` set data)"
  proof -
    have "distinct (map fst ?res)" by (simp add: foldl_add_row_distinct)
    then have "length (map fst ?res) = card (set (map fst ?res))"
      by (simp only: distinct_card)
    then show ?thesis by (simp add: foldl_add_row_keys)
  qed
  ultimately show ?thesis by (simp add: eq set_sort_by length_sort_by)
qed

theorem aggregate_groups_witness:
  "set (aggregateDataForChart sample
          [[(''category'', Str ''a''), (''sales'', Str ''10'')],
           [(''category'', Str ''b''), (''sales'', Str ''n/a'')],
           [(''category'', Str ''a''), (''sales'', Str ''20'')]] ''category'' ''sales'') =
     {[(''category'', Str ''a''), (''sales'', Num (Finite 30)), (''sales_count'', Num (Finite 2)),
       (''sales_avg'', Num (Finite 15))],
      [(''category'', Str ''b''), (''sales'', Num (Finite 1))]} \<and>
   length (aggregateDataForChart sample
          [[(''category'', Str ''a''), (''sales'', Str ''10'')],
           [(''category'', Str ''b''), (''sales'', Str ''n/a'')],
           [(''category'', Str ''a''), (''sales'', Str ''20'')]] ''category'' ''sales'') = 2"
proof -
  let ?data = "[[(''category'', Str ''a''), (''sales'', Str ''10'')],
                [(''category'', Str ''b''), (''sales'', Str ''n/a'')],
                [(''category'', Str ''a''), (''sales'', Str ''20'')]] :: num GridRow list"
  have ne: "?data \<noteq> []" "''category'' \<noteq> []" "''sales'' \<noteq> []" by simp_all
  have rows_of_groups:
    "(\<lambda>k. chart_row sample ''category'' ''sales'' k (group_of sample ''category'' k ?data))
       ` xValue_of sample ''category'' ` set ?data =
     {[(''category'', Str ''a''), (''sales'', Num (Finite 30)), (''sales_count'', Num (Finite 2)),
       (''sales_avg'', Num (Finite 15))],
      [(''category'', Str ''b''), (''sales'', Num (Finite 1))]}"
    by (simp add: chart_row_def group_of_def numeric_cells_def xValue_of_def get_def put_def
                  Let_def sample_defs insert_commute)
  have "xValue_of sample ''category'' ` set ?data = {''a'', ''b''}"
    by (simp add: xValue_of_def get_def insert_commute)
  then have number_of_groups: "card (xValue_of sample ''category'' ` set ?data) = 2"
    by simp
  from aggregate_groups [OF ne, of sample] show ?thesis
    unfolding rows_of_groups number_of_groups .
qed

text \<open>
  The claim as stated fails twice on the sample host. The group \<open>a\<close> has two rows and one
  numeric cell, and its count is 1. The group \<open>b\<close> has no numeric cell, and its value is 1,
  the number of its rows.
\<close>

theorem aggregate_count_counterexample:
  "aggregateDataForChart sample
     [[(''category'', Str ''a''), (''sales'', Str ''10'')],
      [(''category'', Str ''a''), (''sales'', Str ''n/a'')],
      [(''category'', Str ''b''), (''sales'', Str ''n/a'')]] ''category'' ''sales'' =
   [[(''category'', Str ''a''), (''sales'', Num (Finite 10)), (''sales_count'', Num (Finite 1)),
     (''sales_avg'', Num (Finite 10))],
    [(''category'', Str ''b''), (''sales'', Num (Finite 1))]] \<and>
   length (group_of sample ''category'' ''a''
     [[(''category'', Str ''a''), (''sales'', Str ''10'')],
      [(''category'', Str ''a''), (''sales'', Str ''n/a'')],
      [(''category'', Str ''b''), (''sales'', Str ''n/a'')]]) = 2 \<and>
   numeric_cells sample ''sales'' (group_of sample ''category'' ''b''
     [[(''category'', Str ''a''), (''sales'', Str ''10'')],
      [(''category'', Str ''a''), (''sales'', Str ''n/a'')],
      [(''category'', Str ''b''), (''sales'', Str ''n/a'')]]) = []"
  by (simp add: agg_defs group_of_def numeric_cells_def sample_defs)

lemma total_preorder_on_iff:
  "total_preorder_on le xs \<longleftrightarrow>
     (\<forall>a \<in> set xs. \<forall>b \<in> set xs. (le a b \<or> le b a) \<and>
        (\<forall>c \<in> set xs. le a b \<and> le b c \<longrightarrow> le a c))"
  unfolding total_preorder_on_def list_all_iff by auto

lemma total_preorder_consistent:
  "total_preorder_on le xs \<Longrightarrow> orders_consistently (\<lambda>a b. \<not> le a b) xs"
  unfolding total_preorder_on_iff orders_consistently_iff by blast

text \<open>
  On a host where the difference of two numbers is positive exactly when the first is the
  greater, as it is for doubles, the comparator puts a row after another exactly when the
  claimed order does not put it before.
\<close>

lemma key_gt_claimed_order:
  assumes "\<And>a b. \<not> isNaN h a \<Longrightarrow> \<not> isNaN h b \<Longrightarrow> (num_of_nat h 0 < a - b) = (b < a)"
  shows "key_gt h xAxis = (\<lambda>a b. \<not> claimed_order h xAxis a b)"
proof (intro ext)
  fix a b
  show "key_gt h xAxis a b = (\<not> claimed_order h xAxis a b)"
  proof (cases "\<not> isNaN h (Number_js h (get a xAxis)) \<and> \<not> isNaN h (Number_js h (get b xAxis))")
    case True
    then show ?thesis
      using assms [of "Number_js h (get a xAxis)" "Number_js h (get b xAxis)"]
      by (simp add: key_gt_def compare_rows_def claimed_order_def Let_def)
  next
    case False
    then show ?thesis
      by (auto simp: key_gt_def compare_rows_def claimed_order_def Let_def)
  qed
qed

lemma spec_rows_out:
  "aggregateDataForChart sample spec_rows ''category'' ''n'' =
     [[(''category'', Str ''2''), (''n'', Num (Finite 1))],
      [(''category'', Str ''10''), (''n'', Num (Finite 1))],
      [(''category'', Str ''alpha''), (''n'', Num (Finite 1))],
      [(''category'', Str ''bravo''), (''n'', Num (Finite 1))]]"
  by (simp add: spec_rows_def agg_defs sample_defs)

lemma sample_difference_sign:
  "\<not> isNaN sample a \<Longrightarrow> \<not> isNaN sample b \<Longrightarrow> (num_of_nat sample 0 < a - b) = (b < a)"
  by (cases a; cases b) (simp_all add: sample_def less_num_def minus_num_def)

text \<open>
  C7 (as amended). For a non-empty row list and non-empty axes, on a host where the
  difference of two numbers is positive exactly when the first is the greater: whenever
  the claimed order (two keys that are both numbers in ascending numeric order, any other
  pair in ascending order of \<open>localeCompare\<close>) is a total preorder on the output rows, the
  output is sorted ascending in the claimed order, every row before the later ones. For the
  specification's example the keys come out as \<open>2\<close>, \<open>10\<close>, \<open>alpha\<close>, \<open>bravo\<close>.
\<close>

theorem aggregate_sorted:
  assumes "data \<noteq> []" "xAxis \<noteq> []" "yAxis \<noteq> []"
    and "\<And>a b. \<not> isNaN h a \<Longrightarrow> \<not> isNaN h b \<Longrightarrow> (num_of_nat h 0 < a - b) = (b < a)"
    and "total_preorder_on (claimed_order h xAxis) (aggregateDataForChart h data xAxis yAxis)"
  shows "sorted_wrt (claimed_order h xAxis) (aggregateDataForChart h data xAxis yAxis)"
proof -
  let ?rs = "map (result_row h xAxis yAxis) (foldl (add_row h xAxis yAxis) [] data)"
  let ?gt = "\<lambda>a b. \<not> claimed_order h xAxis a b"
  have gt: "key_gt h xAxis = ?gt" by (rule key_gt_claimed_order [OF assms(4)])
  have "aggregateDataForChart h data xAxis yAxis = sort_by (key_gt h xAxis) ?rs"
    using assms(1-3) by (simp add: aggregateDataForChart_def key_gt_def [abs_def])
  then have eq: "aggregateDataForChart h data xAxis yAxis = sort_by ?gt ?rs"
    by (simp only: gt)
  from assms(5) have "orders_consistently ?gt (sort_by ?gt ?rs)"
    unfolding eq by (rule total_preorder_consistent)
  then have "orders_consistently ?gt ?rs"
    unfolding orders_consistently_iff set_sort_by .
  then have "sorted_wrt (\<lambda>a b. \<not> ?gt a b) (sort_by ?gt ?rs)" by (rule sorted_sort_by)
  then show ?thesis unfolding eq by simp
qed

theorem aggregate_sorted_witness:
  "total_preorder_on (claimed_order sample ''category'')
     (aggregateDataForChart sample spec_rows ''category'' ''n'') \<and>
   sorted_wrt (claimed_order sample ''category'')
     (aggregateDataForChart sample spec_rows ''category'' ''n'') \<and>
   map (\<lambda>row. get row ''category'') (aggregateDataForChart sample spec_rows ''category'' ''n'') =
     [Str ''2'', Str ''10'', Str ''alpha'', Str ''bravo'']"
proof -
  have ne: "spec_rows \<noteq> []" "''category'' \<noteq> []" "''n'' \<noteq> []"
    by (simp_all add: spec_rows_def)
  have c: "total_preorder_on (claimed_order sample ''category'')
             (aggregateDataForChart sample spec_rows ''category'' ''n'')"
    unfolding spec_rows_out
    by (simp add: total_preorder_on_def claimed_order_def get_def sample_defs)
  from aggregate_sorted [OF ne sample_difference_sign c] c show ?thesis
    by (simp add: spec_rows_out get_def)
qed

text \<open>
  When every key is a number the claimed order is the numeric order of the keys, which is a
  total preorder on a host whose \<open><\<close> is asymmetric and whose \<open>\<ge>\<close> is transitive on numbers.
\<close>

lemma numeric_keys_total_preorder:
  assumes "list_all (\<lambda>row. \<not> isNaN h (Number_js h (get row xAxis))) rs"
    and "\<And>a b. \<not> isNaN h a \<Longrightarrow> \<not> isNaN h b \<Longrightarrow> a < b \<Longrightarrow> \<not> b < a"
    and "\<And>a b c. \<not> isNaN h a \<Longrightarrow> \<not> isNaN h b \<Longrightarrow> \<not> isNaN h c \<Longrightarrow>
           \<not> b < a \<Longrightarrow> \<not> c < b \<Longrightarrow> \<not> c < a"
  shows "total_preorder_on (claimed_order h xAxis) rs"
proof -
  have num: "\<not> isNaN h (Number_js h (get row xAxis))" if "row \<in> set rs" for row
    using assms(1) that by (simp add: list_all_iff)
  have co: "claimed_order h xAxis a b = (\<not> Number_js h (get b xAxis) < Number_js h (get a xAxis))"
    if "a \<in> set rs" "b \<in> set rs" for a b
    using num [OF that(1)] num [OF that(2)] by (simp add: claimed_order_def Let_def)
  show ?thesis
    unfolding total_preorder_on_iff
  proof (intro ballI conjI impI)
    fix a b assume ab: "a \<in> set rs" "b \<in> set rs"
    show "claimed_order h xAxis a b \<or> claimed_order h xAxis b a"
      using assms(2) [OF num [OF ab(1)] num [OF ab(2)]] co [OF ab] co [OF ab(2) ab(1)] by blast
  next
    fix a b c assume abc: "a \<in> set rs" "b \<in> set rs" "c \<in> set rs"
      and le: "claimed_order h xAxis a b \<and> claimed_order h xAxis b c"
    show "claimed_order h xAxis a c"
      using assms(3) [OF num [OF abc(1)] num [OF abc(2)] num [OF abc(3)]] le
        co [OF abc(1) abc(2)] co [OF abc(2) abc(3)] co [OF abc(1) abc(3)] by blast
  qed
qed

text \<open>
  The claim as stated asks for what no arrangement can give when numeric and other keys
  mix: \<open>2\<close> before \<open>10\<close> as numbers, \<open>10\<close> before \<open>1a\<close> and \<open>1a\<close> before \<open>2\<close> as texts. The output for
  these keys is not in the claimed order, and neither is any other arrangement of them.
\<close>

theorem aggregate_mixed_keys_counterexample:
  "\<not> sorted_wrt (claimed_order sample ''category'')
       (aggregateDataForChart sample
          [[(''category'', Str ''2'')], [(''category'', Str ''10'')], [(''category'', Str ''1a'')]]
          ''category'' ''n'')"
  by (simp add: agg_defs sample_defs claimed_order_def)

lemma mixed_keys_no_arrangement:
  "list_all (\<lambda>rs. \<not> sorted_wrt (claimed_order sample ''category'') rs)
     [[[(''category'', Str ''2'')], [(''category'', Str ''10'')], [(''category'', Str ''1a'')]],
      [[(''category'', Str ''2'')], [(''category'', Str ''1a'')], [(''category'', Str ''10'')]],
      [[(''category'', Str ''10'')], [(''category'', Str ''2'')], [(''category'', Str ''1a'')]],
      [[(''category'', Str ''10'')], [(''category'', Str ''1a'')], [(''category'', Str ''2'')]],
      [[(''category'', Str ''1a'')], [(''category'', Str ''2'')], [(''category'', Str ''10'')]],
      [[(''category'', Str ''1a'')], [(''category'', Str ''10'')], [(''category'', Str ''2'')]]]"
  by (simp add: claimed_order_def get_def sample_defs)

section \<open>Properties of the query interpreter\<close>

lemma try_analysis_Inr:
  assumes "try_analysis h now svc q = Inr r"
  shows "query r = q \<and> success r \<and> error r = None"
proof (cases svc)
  case (Rejects e)
  with assms show ?thesis by (simp add: try_analysis_def)
next
  case (Responds ok status tr jr)
  with assms show ?thesis
    by (auto simp: try_analysis_def Let_def
             split: if_splits sum.splits option.splits bool.splits prod.splits)
qed

lemma read_prop_Some: "read_prop el p = Inr (Some v) \<Longrightarrow> \<exists>kvs. el = JObj kvs \<and> map_of kvs p = Some v"
  by (cases el) auto

lemma truthy_json_Some: "truthy_json h v \<Longrightarrow> \<exists>x. v = Some x"
  by (cases v) auto

text \<open>Every filter that passes the validation is an accepted filter with its fresh id.\<close>

lemma filtersWithIds_accepted:
  "filtersWithIds h now i fs = Inr ws \<Longrightarrow> list_all (accepted_filter h) ws"
proof (induction fs arbitrary: i ws)
  case Nil
  then show ?case by simp
next
  case (Cons el fs)
  from Cons.prems obtain col opr val ws' where
    col: "read_prop el ''column'' = Inr col" and opr: "read_prop el ''operator'' = Inr opr"
    and val: "read_prop el ''value'' = Inr val"
    and ok: "truthy_json h col" "truthy_json h opr" "val \<noteq> None"
    and rest: "filtersWithIds h now (Suc i) fs = Inr ws'"
    and ws: "ws = JObj (AList.update ''id''
                  (JStr (''ai_filter_'' @ string_of_nat (now i) @ ''_'' @ string_of_nat i))
                  (case el of JObj kvs \<Rightarrow> kvs | _ \<Rightarrow> [])) # ws'"
    by (auto split: sum.splits if_splits)
  from ok(1) obtain c where c: "col = Some c" using truthy_json_Some by blast
  with col obtain kvs where el: "el = JObj kvs" using read_prop_Some by blast
  with col opr val have m: "map_of kvs ''column'' = col" "map_of kvs ''operator'' = opr"
    "map_of kvs ''value'' = val" by simp_all
  have "accepted_filter h (JObj (AList.update ''id''
          (JStr (''ai_filter_'' @ string_of_nat (now i) @ ''_'' @ string_of_nat i)) kvs))"
    using ok m by (auto simp: update_conv')
  with el ws Cons.IH [OF rest] show ?case by simp
qed

lemma try_analysis_accepted:
  assumes "try_analysis h now svc q = Inr r"
  shows "truthy_json h (Some (interpretation_field r)) \<and> list_all (accepted_filter h) (filters r)"
proof (cases svc)
  case (Rejects e)
  with assms show ?thesis by (simp add: try_analysis_def)
next
  case (Responds ok status tr jr)
  with assms show ?thesis
    by (auto simp: try_analysis_def Let_def filtersWithIds_accepted
             split: if_splits sum.splits option.splits bool.splits prod.splits json.splits)
qed

text \<open>Every filter of the pattern matcher names a column and has one of the six operators.\<close>

lemma push_match_valid:
  "opr \<in> set recognized_operators \<Longrightarrow> list_all valid_condition acc \<Longrightarrow>
   list_all valid_condition (push_match now ed opr caps acc)"
  by (auto simp: push_match_def valid_condition_def split: list.splits option.splits)

lemma exec_loop_valid:
  assumes "0 < min_len r" and "opr \<in> set recognized_operators"
  shows "list_all valid_condition acc \<Longrightarrow> exec_loop now ed r opr s acc = Some fs \<Longrightarrow>
         list_all valid_condition fs"
proof (induction "length s" arbitrary: s acc rule: less_induct)
  case less
  show ?case
  proof (cases "search r s")
    case None
    with less.prems show ?thesis by (subst (asm) exec_loop.simps) simp
  next
    case (Some m)
    obtain caps rest where m: "m = (caps, rest)" by (cases m)
    with Some assms(1) have len: "length rest < length s"
      using search_length [of r s caps rest] by simp
    from less.prems(2) Some m
    have "exec_loop now ed r opr rest (push_match now ed opr caps acc) = Some fs"
      by (subst (asm) exec_loop.simps) simp
    with less.hyps [OF len push_match_valid [OF assms(2) less.prems(1)]] show ?thesis .
  qed
qed

lemma forEach_pattern_valid:
  "list_all (\<lambda>(r, opr). 0 < min_len r \<and> opr \<in> set recognized_operators) ps \<Longrightarrow>
   list_all valid_condition acc \<Longrightarrow> forEach_pattern now ed ps q acc = Some fs \<Longrightarrow>
   list_all valid_condition fs"
proof (induction ps arbitrary: acc)
  case Nil
  then show ?case by simp
next
  case (Cons a ps)
  obtain r opr where a: "a = (r, opr)" by (cases a)
  with Cons.prems(1) have r: "0 < min_len r" "opr \<in> set recognized_operators"
    and ps: "list_all (\<lambda>(r, opr). 0 < min_len r \<and> opr \<in> set recognized_operators) ps"
    by simp_all
  from Cons.prems(3) a obtain mid where
    mid: "exec_loop now ed r opr q acc = Some mid" and
    rest: "forEach_pattern now ed ps q mid = Some fs"
    by (auto split: option.splits)
  have "list_all valid_condition mid"
    by (rule exec_loop_valid [OF r Cons.prems(2) mid])
  then show ?case by (rule Cons.IH [OF ps _ rest])
qed

lemma patterns_recognized:
  "list_all (\<lambda>(r, opr). 0 < min_len r \<and> opr \<in> set recognized_operators) patterns"
  by (simp add: patterns_def lits_def lit_def recognized_operators_def ordered_operators_def)

lemma parseBasicQuery_valid:
  "parseBasicQuery now ed q = Some fs \<Longrightarrow> list_all valid_condition fs"
  unfolding parseBasicQuery_def
  using forEach_pattern_valid [OF patterns_recognized, of "[]"] by simp

lemma filter_object_well_formed:
  "valid_condition f \<Longrightarrow> well_formed_filter (filter_object f) \<and> accepted_filter h (filter_object f)"
  by (auto simp: valid_condition_def filter_object_def recognized_operators_def ordered_operators_def)

lemma parseBasicQuery_no_pattern:
  "parseBasicQuery (\<lambda>i. 0) (Some \<lparr> headers = [''sales''], rows = [] \<rparr>) ''show everything'' = Some []"
  unfolding parseBasicQuery_def
  apply (simp add: eval_defs)
  apply (subst exec_loop.simps, simp add: eval_defs)+
  done

text \<open>
  C1 (as amended). For every query, every table (its column list and rows), every clock and
  everything the analysis service can do (reject, answer with an error status, answer with
  any JSON value), \<open>analyzeSearchQuery\<close> returns without throwing, and its result has the
  fields \<open>query\<close>, \<open>interpretation\<close>, \<open>filters\<close> and \<open>success\<close>: the query is the input, and the
  result either succeeds with no error message or fails with no filters and an error
  message. The result is a well-formed interpretation result whenever the service's answer
  is not used. When the answer is used, the result is the answer as validated: the
  interpretation is any truthy value and every filter is an object with a truthy column,
  a truthy operator, any value but \<open>undefined\<close> and a fresh text id, and these need not be
  texts or one of the six operators.
\<close>

theorem analyzeSearchQuery_returns:
  "\<exists>r. analyzeSearchQuery h now (Some d) svc q = Some (Inr r) \<and> query r = q \<and>
        (if success r then error r = None else filters r = [] \<and> error r \<noteq> None) \<and>
        truthy_json h (Some (interpretation_field r)) \<and>
        list_all (accepted_filter h) (filters r) \<and>
        (case try_analysis h now svc q of Inl e \<Rightarrow> well_formed r | Inr r' \<Rightarrow> r = r')"
proof (cases "try_analysis h now svc q")
  case (Inr r)
  with try_analysis_Inr [OF Inr] try_analysis_accepted [OF Inr] show ?thesis
    by (simp add: analyzeSearchQuery_def)
next
  case (Inl a)
  obtain err k where a: "a = (err, k)" by (cases a)
  obtain fs where fs: "parseBasicQuery (\<lambda>i. now (k + i)) (Some d) q = Some fs"
    using parseBasicQuery_total by blast
  have valid: "list_all valid_condition fs" by (rule parseBasicQuery_valid [OF fs])
  then have wf: "list_all well_formed_filter (map filter_object fs)"
    and acc: "list_all (accepted_filter h) (map filter_object fs)"
    using filter_object_well_formed [of _ h] unfolding list_all_iff by auto
  show ?thesis
  proof (cases "fs = []")
    case True
    with Inl a fs show ?thesis by (simp add: analyzeSearchQuery_def well_formed_def)
  next
    case False
    with Inl a fs wf acc show ?thesis by (simp add: analyzeSearchQuery_def well_formed_def)
  qed
qed

text \<open>
  On the sample host with the service out of reach, the query \<open>sales >= 100\<close> gives a
  well-formed result that succeeds.
\<close>

theorem analyzeSearchQuery_returns_witness:
  "\<exists>r. analyzeSearchQuery sample (\<lambda>i. 0) (Some \<lparr> headers = [''sales''], rows = [] \<rparr>)
         (Rejects (Error ''Failed to fetch'')) ''sales >= 100'' = Some (Inr r) \<and>
       query r = ''sales >= 100'' \<and> success r \<and> well_formed r"
proof -
  have "try_analysis sample (\<lambda>i. 0) (Rejects (Error ''Failed to fetch'')) ''sales >= 100'' =
          Inl (Error ''Network error: Failed to fetch'', 0)"
    by (simp add: try_analysis_def)
  moreover have "success r" if "analyzeSearchQuery sample (\<lambda>i. 0)
      (Some \<lparr> headers = [''sales''], rows = [] \<rparr>) (Rejects (Error ''Failed to fetch''))
      ''sales >= 100'' = Some (Inr r)" for r :: "num AIAnalysisResult"
    using that parseBasicQuery_sales_ge by (auto simp: analyzeSearchQuery_def try_analysis_def)
  ultimately show ?thesis
    using analyzeSearchQuery_returns [of sample "\<lambda>i. 0" "\<lparr> headers = [''sales''], rows = [] \<rparr>"
        "Rejects (Error ''Failed to fetch'')" "''sales >= 100''"]
    by auto
qed

text \<open>
  The claim as stated fails for an answer that passes the validation with the wrong types:
  an interpretation that is the number 5 and a filter whose value is \<open>null\<close> come back in the
  result, which is then no well-formed interpretation result.
\<close>

theorem analyzeSearchQuery_untyped_answer_counterexample:
  "analyzeSearchQuery sample (\<lambda>i. 0) (Some \<lparr> headers = [''sales''], rows = [] \<rparr>)
     (Responds True 200 (Inr [])
        (Inr (JObj [(''success'', JBool True),
                    (''data'', JObj [(''interpretation'', JNum (Finite 5)),
                                     (''filters'', JArr [JObj [(''column'', JStr ''sales''),
                                                               (''operator'', JStr ''greater''),
                                                               (''value'', JNull)]])])])))
     ''sales > 15000'' =
   Some (Inr \<lparr> query = ''sales > 15000'', interpretation_field = JNum (Finite 5),
     filters = [JObj [(''column'', JStr ''sales''), (''operator'', JStr ''greater''),
                      (''value'', JNull), (''id'', JStr ''ai_filter_0_0'')]],
     success = True, error = None \<rparr>) \<and>
   \<not> well_formed \<lparr> query = ''sales > 15000'', interpretation_field = JNum (Finite 5 :: num),
     filters = [JObj [(''column'', JStr ''sales''), (''operator'', JStr ''greater''),
                      (''value'', JNull), (''id'', JStr ''ai_filter_0_0'')]],
     success = True, error = None \<rparr> \<and>
   \<not> well_formed_filter (JObj [(''column'', JStr ''sales''), (''operator'', JStr ''greater''),
                      (''value'', (JNull :: num json)), (''id'', JStr ''ai_filter_0_0'')])"
  by (simp add: analyzeSearchQuery_def try_analysis_def well_formed_def truthy_num_def
                string_of_nat_small sample_def less_num_def)

text \<open>
  With no table the function throws before it reaches its \<open>try\<close> block. Its one caller
  returns early when there is no table.
\<close>

lemma analyzeSearchQuery_no_table:
  "analyzeSearchQuery h now None svc q = Some (Inl (Error ''No data available for analysis''))"
  by (simp add: analyzeSearchQuery_def)

text \<open>
  Three runs on the sample host. The service cannot be reached and the query has no
  pattern: the result fails and carries the network error. The service answers with a
  filter that has no operator: the answer is discarded whole and the pattern matcher's
  filter returns. The service reports an error that is an object with a key \<open>toString\<close>:
  making the error message throws, and the result carries that \<open>TypeError\<close>.
\<close>

lemma analyzeSearchQuery_unreachable_service:
  "analyzeSearchQuery sample (\<lambda>i. 0) (Some \<lparr> headers = [''sales''], rows = [] \<rparr>)
     (Rejects (Error ''Failed to fetch'')) ''show everything'' =
   Some (Inr \<lparr> query = ''show everything'',
     interpretation_field = JStr (''AI service unavailable. Try basic patterns like '' @
        [CHR 0x27] @ ''column > value'' @ [CHR 0x27] @ '', '' @
        [CHR 0x27] @ ''column contains text'' @ [CHR 0x27] @ '', or '' @
        [CHR 0x27] @ ''column = value'' @ [CHR 0x27] @ ''.''),
     filters = [], success = False,
     error = Some ''Network error: Failed to fetch'' \<rparr>)"
  using parseBasicQuery_no_pattern
  by (simp add: analyzeSearchQuery_def try_analysis_def)

lemma analyzeSearchQuery_invalid_filter:
  "analyzeSearchQuery sample (\<lambda>i. 0) (Some \<lparr> headers = [''sales''], rows = [] \<rparr>)
     (Responds True 200 (Inr [])
        (Inr (JObj [(''success'', JBool True),
                    (''data'', JObj [(''interpretation'', JStr ''ok''),
                                     (''filters'', JArr [JObj [(''column'', JStr ''sales'')]])])])))
     ''sales >= 100'' =
   Some (Inr \<lparr> query = ''sales >= 100'',
     interpretation_field =
       JStr ''Using basic pattern matching: Found 1 filter(s). AI service unavailable.'',
     filters = [JObj [(''id'', JStr ''basic_filter_0_0''), (''column'', JStr ''sales''),
                      (''operator'', JStr ''greaterEqual''), (''value'', JStr ''100'')]],
     success = True, error = None \<rparr>)"
  using parseBasicQuery_sales_ge
  by (simp add: analyzeSearchQuery_def try_analysis_def filter_object_def string_of_nat_small)

lemma analyzeSearchQuery_error_object:
  "analyzeSearchQuery sample (\<lambda>i. 0) (Some \<lparr> headers = [''sales''], rows = [] \<rparr>)
     (Responds True 200 (Inr [])
        (Inr (JObj [(''success'', JBool False), (''error'', JObj [(''toString'', JStr ''x'')])])))
     ''show everything'' =
   Some (Inr \<lparr> query = ''show everything'',
     interpretation_field = JStr (''AI service unavailable. Try basic patterns like '' @
        [CHR 0x27] @ ''column > value'' @ [CHR 0x27] @ '', '' @
        [CHR 0x27] @ ''column contains text'' @ [CHR 0x27] @ '', or '' @
        [CHR 0x27] @ ''column = value'' @ [CHR 0x27] @ ''.''),
     filters = [], success = False,
     error = Some ''Cannot convert object to primitive value'' \<rparr>)"
  using parseBasicQuery_no_pattern
  by (simp add: analyzeSearchQuery_def try_analysis_def sample_def)

end
